theory Spec2Isabelle
  imports Main "HOL-Library.AList"
begin

section \<open>Syntax trees\<close>

text \<open>
  The syntax trees are those of the package \<^verbatim>\<open>go/ast\<close> that \<^verbatim>\<open>godef.go\<close> imports.
  Only the node types that \<^verbatim>\<open>findIdentifier\<close> and \<^verbatim>\<open>oldGodef\<close> distinguish have a
  constructor of their own; every other node type is \<open>Other\<close>, which records whether the
  Go type implements \<^verbatim>\<open>ast.Expr\<close> and the children in the order in which \<^verbatim>\<open>ast.Walk\<close>
  walks them. Positions (\<^verbatim>\<open>token.Pos\<close>) and offsets are Go \<^verbatim>\<open>int\<close>s; they are bounded by
  the sizes of the parsed files, so they are modelled as unbounded integers.
\<close>

datatype Ident = MkIdent (NamePos: int) (Name: string)

datatype BasicLit = MkBasicLit (ValuePos: int) (LitValue: string)

datatype Node =
    Ident Ident
  | BasicLit BasicLit
  | SelectorExpr Node Ident
  | StarExpr Node
  | ImportSpec "Ident option" BasicLit
  | StructType "Field list"
  | Other bool "Node list"
and Field = Field (Names: "Ident list") (FieldType: Node)

text \<open>
  A parsed file: the identifier of its package clause, its top-level declarations and
  a handle to its scope.
\<close>

record 's File =
  Name :: Ident
  Decls :: "Node list"
  Scope :: 's

text \<open>
  Modelled from the spec: the end position of an identifier and the extent of an import
  specifier (\<^verbatim>\<open>Ident.End\<close>, \<^verbatim>\<open>ImportSpec.Pos\<close> and \<^verbatim>\<open>ImportSpec.End\<close> of
  \<^verbatim>\<open>go/ast\<close>, which is not among the sources). An identifier spans its token; an import
  specifier spans from its local name, if it has one, to the end of its path literal.
\<close>

definition Ident_End :: "Ident \<Rightarrow> int" where
  "Ident_End i = NamePos i + int (length (Ident.Name i))"

definition ImportSpec_Pos :: "Ident option \<Rightarrow> BasicLit \<Rightarrow> int" where
  "ImportSpec_Pos nm path = (case nm of Some i \<Rightarrow> NamePos i | None \<Rightarrow> ValuePos path)"

definition ImportSpec_End :: "Ident option \<Rightarrow> BasicLit \<Rightarrow> int" where
  "ImportSpec_End nm path = ValuePos path + int (length (LitValue path))"

text \<open>The type switch \<^verbatim>\<open>case ast.Expr\<close>: which nodes are expressions.\<close>

fun isExpr :: "Node \<Rightarrow> bool" where
  "isExpr (Ident i) = True"
| "isExpr (BasicLit l) = True"
| "isExpr (SelectorExpr x sel) = True"
| "isExpr (StarExpr x) = True"
| "isExpr (ImportSpec nm path) = False"
| "isExpr (StructType fs) = True"
| "isExpr (Other b ns) = b"

section \<open>Errors and the environment\<close>

text \<open>One constructor for each error that \<^verbatim>\<open>godef.go\<close> creates, with the values it formats.\<close>

datatype error =
    CannotParse string "string option"
  | CannotParseExpression string
  | NoIdentifierInExpression
  | NoExpressionOrOffset
  | InvalidStringLiteral string
  | ErrorFindingImportPath string string
  | NoDeclarationFound string
  | NoIdentifierFound
  | errNoPkgFiles
  | JSONMarshalError string

text \<open>
  \<^verbatim>\<open>ast.ObjKind\<close> and \<^verbatim>\<open>ast.Object\<close>, as far as \<^verbatim>\<open>oldGodef\<close> builds them: the fields it
  does not set keep their zero values.
\<close>

datatype ObjKind = ast_Bad | ast_Pkg | ast_Con | ast_Typ | ast_Var | ast_Fun | ast_Lbl

record astObject =
  Kind :: ObjKind
  Name :: string
  Decl :: "Node option"
  Data :: "string option"

text \<open>
  What the program calls outside \<^verbatim>\<open>godef.go\<close> is a parameter. \<open>'w\<close> is the mutable state of
  the process that these calls read and change (the global file set \<^verbatim>\<open>types.FileSet\<close>,
  the scopes, the importer's cache); \<open>'s\<close> is a handle to a scope; \<open>'a\<close> is an opaque Go
  value (a \<^verbatim>\<open>types.Type\<close>). A value held in an \<^verbatim>\<open>interface{}\<close> is a string or such an opaque
  value; nil is \<open>None\<close>.
  \<^item> \<open>NewScope\<close>: \<^verbatim>\<open>ast.NewScope(parser.Universe)\<close>.
  \<^item> \<open>ParseFile w filename src clauseOnly scope\<close>: \<^verbatim>\<open>parser.ParseFile\<close>; \<open>src = None\<close>
    reads the file from disk, \<open>clauseOnly\<close> is the mode \<^verbatim>\<open>parser.PackageClauseOnly\<close>,
    \<open>scope = None\<close> is a nil scope. It returns the file (or nil) and the error (or nil).
  \<^item> \<open>ParseExpr w scope expr\<close>: \<^verbatim>\<open>parser.ParseExpr\<close> on the file name \<^verbatim>\<open><arg>\<close>.
  \<^item> \<open>ExprType w e\<close>: \<^verbatim>\<open>types.ExprType(e, types.DefaultImporter, types.FileSet)\<close>, the
    declaring object (or nil) and the type.
  \<^item> \<open>Position_Offset w p\<close>: \<^verbatim>\<open>types.FileSet.Position(p).Offset\<close>.
  \<^item> \<open>Unquote\<close>: \<^verbatim>\<open>strconv.Unquote\<close>, \<open>None\<close> when it fails.
  \<^item> \<open>Import path srcDir\<close>: \<^verbatim>\<open>build.Default.Import(path, srcDir, build.FindOnly)\<close>, the
    error or the directory of the package.
  \<^item> \<open>Dir\<close>, \<open>Split\<close>, \<open>Join\<close>: those of \<^verbatim>\<open>path/filepath\<close>.
  \<^item> \<open>Open d\<close>: whether \<^verbatim>\<open>os.Open(d)\<close> succeeds; \<open>Readdirnames d\<close>: the names in the
    directory, \<open>None\<close> when reading fails.
  \<^item> \<open>prettyNode\<close>, \<open>prettyValue\<close>: the rendering \<^verbatim>\<open>pretty{...}\<close> under \<^verbatim>\<open>%v\<close>, of a
    node and of a value held in an \<^verbatim>\<open>interface{}\<close>.
  \<^item> \<open>formatS\<close>: the rendering under \<^verbatim>\<open>%s\<close> of a value that is not a string.
  \<^item> \<open>Quote\<close>: the rendering of a string under \<^verbatim>\<open>%q\<close>.
  \<^item> \<open>IsExported\<close>: \<^verbatim>\<open>ast.IsExported\<close>.
  \<^item> \<open>jsonString\<close>: the encoding of a string by \<^verbatim>\<open>encoding/json\<close>.
  \<^item> \<open>zeroType\<close>: the zero value \<^verbatim>\<open>types.Type{}\<close>.
\<close>

datatype 'a iface = StringValue string | GoValue 'a

record ('w, 's, 'a) env =
  NewScope :: "'w \<Rightarrow> 's \<times> 'w"
  ParseFile :: "'w \<Rightarrow> string \<Rightarrow> string option \<Rightarrow> bool \<Rightarrow> 's option
                 \<Rightarrow> ('s File option \<times> string option) \<times> 'w"
  ParseExpr :: "'w \<Rightarrow> 's \<Rightarrow> string \<Rightarrow> (string + Node) \<times> 'w"
  ExprType :: "'w \<Rightarrow> Node \<Rightarrow> (astObject option \<times> 'a) \<times> 'w"
  Position_Offset :: "'w \<Rightarrow> int \<Rightarrow> int"
  Unquote :: "string \<Rightarrow> string option"
  Import :: "string \<Rightarrow> string \<Rightarrow> string + string"
  Dir :: "string \<Rightarrow> string"
  Split :: "string \<Rightarrow> string \<times> string"
  Join :: "string \<Rightarrow> string \<Rightarrow> string"
  Open :: "string \<Rightarrow> bool"
  Readdirnames :: "string \<Rightarrow> string list option"
  prettyNode :: "Node \<Rightarrow> string"
  prettyValue :: "'a iface \<Rightarrow> string"
  formatS :: "'a \<Rightarrow> string"
  Quote :: "string \<Rightarrow> string"
  IsExported :: "string \<Rightarrow> bool"
  jsonString :: "string \<Rightarrow> string"
  zeroType :: 'a

section \<open>Parsing a query expression\<close>

text \<open>\<^verbatim>\<open>parseExpr\<close>: only an identifier or a selector expression is accepted.\<close>

definition parseExpr :: "('w, 's, 'a) env \<Rightarrow> 'w \<Rightarrow> 's \<Rightarrow> string \<Rightarrow> (error + Node) \<times> 'w" where
  "parseExpr E w s ex =
     (case ParseExpr E w s ex of
        (Inl e, w') \<Rightarrow> (Inl (CannotParseExpression e), w')
      | (Inr n, w') \<Rightarrow>
          (case n of
             Ident i \<Rightarrow> (Inr n, w')
           | SelectorExpr x sel \<Rightarrow> (Inr n, w')
           | _ \<Rightarrow> (Inl NoIdentifierInExpression, w')))"

section \<open>The node locator\<close>

text \<open>
  \<^verbatim>\<open>nodeResult\<close> is what the traversal sends on its channel: a node or nil, and an error
  or nil.
\<close>

record nodeResult =
  node :: "Node option"
  err :: "error option"

text \<open>
  The value \<^verbatim>\<open>nodeResult{expr, err}\<close> that is sent for the two returns of \<^verbatim>\<open>parseExpr\<close>,
  with the state that \<^verbatim>\<open>parseExpr\<close> left.
\<close>

definition sendResult :: "(error + Node) \<times> 'w \<Rightarrow> nodeResult \<times> 'w" where
  "sendResult r =
     (case r of
        (Inl e, w') \<Rightarrow> (\<lparr>node = None, err = Some e\<rparr>, w')
      | (Inr ex, w') \<Rightarrow> (\<lparr>node = Some ex, err = None\<rparr>, w'))"

text \<open>The closure \<^verbatim>\<open>found\<close> of \<^verbatim>\<open>findIdentifier\<close>; \<open>endOff\<close> is its variable \<^verbatim>\<open>end\<close>.\<close>

definition found :: "('w, 's, 'a) env \<Rightarrow> 'w \<Rightarrow> int \<Rightarrow> int \<Rightarrow> int \<Rightarrow> bool" where
  "found E w searchpos startPos endPos =
     (let start = Position_Offset E w startPos;
          endOff = start + (endPos - startPos)
      in start \<le> searchpos \<and> searchpos \<le> endOff)"

text \<open>
  The body of the loop over the fields of a struct type: the identifier that an
  anonymous field embeds, directly or through one pointer; \<open>None\<close> where the loop moves
  on to the next field.
\<close>

definition embeddedIdent :: "Field \<Rightarrow> Ident option" where
  "embeddedIdent field =
     (if Names field \<noteq> [] then None
      else (let t = (case FieldType field of StarExpr x \<Rightarrow> x | _ \<Rightarrow> FieldType field)
            in (case t of Ident ident \<Rightarrow> Some ident | _ \<Rightarrow> None)))"

text \<open>
  The loop itself. At the first embedded identifier whose span contains the offset the
  identifier's name is parsed as an expression, the outcome is sent and the traversal
  exits (\<open>Some\<close>); \<open>None\<close> is the \<^verbatim>\<open>return true\<close> after the loop.
\<close>

fun structFields :: "('w, 's, 'a) env \<Rightarrow> 'w \<Rightarrow> 's \<Rightarrow> int \<Rightarrow> Field list \<Rightarrow> (nodeResult \<times> 'w) option" where
  "structFields E w s searchpos [] = None"
| "structFields E w s searchpos (field # rest) =
     (case embeddedIdent field of
        None \<Rightarrow> structFields E w s searchpos rest
      | Some ident \<Rightarrow>
          if found E w searchpos (NamePos ident) (Ident_End ident)
          then Some (sendResult (parseExpr E w s (Ident.Name ident)))
          else structFields E w s searchpos rest)"

text \<open>
  The closure \<^verbatim>\<open>visit\<close>. \<open>None\<close> is \<^verbatim>\<open>return true\<close>: the traversal goes on. \<open>Some r\<close>
  is the send of \<open>r\<close> on the channel followed by \<^verbatim>\<open>runtime.Goexit()\<close>: the traversal
  stops there.
\<close>

fun visit :: "('w, 's, 'a) env \<Rightarrow> 'w \<Rightarrow> 's \<Rightarrow> int \<Rightarrow> Node \<Rightarrow> (nodeResult \<times> 'w) option" where
  "visit E w s searchpos (Ident i) =
     (if found E w searchpos (NamePos i) (Ident_End i)
      then Some (\<lparr>node = Some (Ident i), err = None\<rparr>, w) else None)"
| "visit E w s searchpos (SelectorExpr x sel) =
     (if found E w searchpos (NamePos sel) (Ident_End sel)
      then Some (\<lparr>node = Some (SelectorExpr x sel), err = None\<rparr>, w) else None)"
| "visit E w s searchpos (ImportSpec nm path) =
     (if found E w searchpos (ImportSpec_Pos nm path) (ImportSpec_End nm path)
      then Some (\<lparr>node = Some (ImportSpec nm path), err = None\<rparr>, w) else None)"
| "visit E w s searchpos (StructType flds) = structFields E w s searchpos flds"
| "visit E w s searchpos (BasicLit l) = None"
| "visit E w s searchpos (StarExpr x) = None"
| "visit E w s searchpos (Other b ns) = None"

text \<open>
  Modelled from the spec: the depth-first traversal (\<^verbatim>\<open>ast.Walk\<close> of \<^verbatim>\<open>go/ast\<close>, which is
  not among the sources). A node is visited before its children and the children are
  walked in source order; the visitor \<open>v\<close> either lets the traversal go on (\<open>None\<close>) or
  ends it with a result (\<open>Some\<close>), after which no sibling and no descendant is visited.
  An identifier and a literal have no children, so walking one is visiting it. Comment
  groups and the tag of a field are left out of the trees: \<^verbatim>\<open>visit\<close> returns true on them
  and they hold no node that it tests; so is the closing call of the visitor on nil,
  on which \<^verbatim>\<open>visit\<close> returns true as well.
\<close>

fun walkIdentList :: "(Node \<Rightarrow> 'r option) \<Rightarrow> Ident list \<Rightarrow> 'r option" where
  "walkIdentList v [] = None"
| "walkIdentList v (x # xs) =
     (case v (Ident x) of Some r \<Rightarrow> Some r | None \<Rightarrow> walkIdentList v xs)"

fun Walk :: "(Node \<Rightarrow> 'r option) \<Rightarrow> Node \<Rightarrow> 'r option"
and walkList :: "(Node \<Rightarrow> 'r option) \<Rightarrow> Node list \<Rightarrow> 'r option"
and walkFields :: "(Node \<Rightarrow> 'r option) \<Rightarrow> Field list \<Rightarrow> 'r option"
where
  "Walk v (Ident i) = v (Ident i)"
| "Walk v (BasicLit l) = v (BasicLit l)"
| "Walk v (SelectorExpr x sel) =
     (case v (SelectorExpr x sel) of Some r \<Rightarrow> Some r | None \<Rightarrow>
        (case Walk v x of Some r \<Rightarrow> Some r | None \<Rightarrow> v (Ident sel)))"
| "Walk v (StarExpr x) =
     (case v (StarExpr x) of Some r \<Rightarrow> Some r | None \<Rightarrow> Walk v x)"
| "Walk v (ImportSpec nm path) =
     (case v (ImportSpec nm path) of Some r \<Rightarrow> Some r | None \<Rightarrow>
        (case walkIdentList v (case nm of None \<Rightarrow> [] | Some i \<Rightarrow> [i]) of Some r \<Rightarrow> Some r
         | None \<Rightarrow> v (BasicLit path)))"
| "Walk v (StructType flds) =
     (case v (StructType flds) of Some r \<Rightarrow> Some r | None \<Rightarrow> walkFields v flds)"
| "Walk v (Other b ns) =
     (case v (Other b ns) of Some r \<Rightarrow> Some r | None \<Rightarrow> walkList v ns)"
| "walkList v [] = None"
| "walkList v (n # ns) =
     (case Walk v n of Some r \<Rightarrow> Some r | None \<Rightarrow> walkList v ns)"
| "walkFields v [] = None"
| "walkFields v (Field names t # rest) =
     (case walkIdentList v names of Some r \<Rightarrow> Some r | None \<Rightarrow>
        (case Walk v t of Some r \<Rightarrow> Some r | None \<Rightarrow> walkFields v rest))"

text \<open>
  Walking a file: \<^verbatim>\<open>visit\<close> returns true on the file node itself, then the identifier of
  the package clause and the declarations are walked.
\<close>

definition WalkFile :: "(Node \<Rightarrow> 'r option) \<Rightarrow> 's File \<Rightarrow> 'r option" where
  "WalkFile v f =
     (case v (Ident (File.Name f)) of Some r \<Rightarrow> Some r | None \<Rightarrow> walkList v (Decls f))"

text \<open>
  The receiving end of the channel in \<^verbatim>\<open>findIdentifier\<close>: what the caller returns for the
  \<^verbatim>\<open>nodeResult\<close> it received.
\<close>

definition received :: "nodeResult \<times> 'w \<Rightarrow> (error + Node) \<times> 'w" where
  "received r =
     (case r of
        (ev, w') \<Rightarrow>
          (case err ev of
             Some e \<Rightarrow> (Inl e, w')
           | None \<Rightarrow>
               (case node ev of
                  None \<Rightarrow> (Inl NoIdentifierFound, w')
                | Some n \<Rightarrow> (Inr n, w'))))"

text \<open>
  \<^verbatim>\<open>findIdentifier\<close>: the traversal runs in a goroutine of its own that sends exactly one
  \<^verbatim>\<open>nodeResult\<close> (the first one that \<^verbatim>\<open>visit\<close> produces, or \<^verbatim>\<open>{nil, nil}\<close> when the walk
  ends) while the caller blocks on the channel; this is the early exit of \<open>Walk\<close>.
\<close>

definition findIdentifier :: "('w, 's, 'a) env \<Rightarrow> 'w \<Rightarrow> 's File \<Rightarrow> int \<Rightarrow> (error + Node) \<times> 'w" where
  "findIdentifier E w f searchpos =
     received (case WalkFile (visit E w (File.Scope f) searchpos) f of
                 Some r \<Rightarrow> r
               | None \<Rightarrow> (\<lparr>node = None, err = None\<rparr>, w))"

section \<open>Aggregating the files of the package\<close>

text \<open>
  \<^verbatim>\<open>ast.Package\<close>; \<open>Files\<close> is a Go map from file names to files, kept as an association
  list with one entry for each key, so that its length is \<^verbatim>\<open>len(pkg.Files)\<close>.
\<close>

record 's Package =
  Name :: string
  Scope :: 's
  Files :: "(string \<times> 's File option) list"

text \<open>\<^verbatim>\<open>hasSuffix\<close>, which is also what \<^verbatim>\<open>strings.HasSuffix\<close> computes.\<close>

definition hasSuffix :: "string \<Rightarrow> string \<Rightarrow> bool" where
  "hasSuffix s suff =
     (length s \<ge> length suff \<and> drop (length s - length suff) s = suff)"

definition pkgName :: "('w, 's, 'a) env \<Rightarrow> 'w \<Rightarrow> string \<Rightarrow> string \<times> 'w" where
  "pkgName E w filename =
     (case ParseFile E w filename None True None of
        ((prog, e), w') \<Rightarrow>
          (case prog of
             Some p \<Rightarrow> (Ident.Name (File.Name p), w')
           | None \<Rightarrow> ([], w')))"

text \<open>
  One round of the loop of \<^verbatim>\<open>parseLocalPackage\<close> over the directory's names: \<open>d\<close> is
  the directory, \<open>f\<close> the base name of the principal file.
\<close>

definition scanStep :: "('w, 's, 'a) env \<Rightarrow> string \<Rightarrow> string \<Rightarrow> 's Package \<times> 'w \<Rightarrow> string \<Rightarrow> 's Package \<times> 'w" where
  "scanStep E d f st pf =
     (case st of (pkg, w) \<Rightarrow>
        (let file = Join E d pf
         in if \<not> hasSuffix pf ''.go'' \<or> pf = f then (pkg, w)
            else (case pkgName E w file of
                    (nm, w1) \<Rightarrow>
                      if nm \<noteq> Package.Name pkg then (pkg, w1)
                      else (case ParseFile E w1 file None False (Some (Package.Scope pkg)) of
                              ((src, e), w2) \<Rightarrow>
                                if e = None
                                then (pkg\<lparr>Files := AList.update file src (Files pkg)\<rparr>, w2)
                                else (pkg, w2)))))"

fun scanSiblings :: "('w, 's, 'a) env \<Rightarrow> string \<Rightarrow> string \<Rightarrow> 's Package \<times> 'w \<Rightarrow> string list \<Rightarrow> 's Package \<times> 'w" where
  "scanSiblings E d f st [] = st"
| "scanSiblings E d f st (pf # rest) = scanSiblings E d f (scanStep E d f st pf) rest"

definition parseLocalPackage :: "('w, 's, 'a) env \<Rightarrow> 'w \<Rightarrow> string \<Rightarrow> 's File \<Rightarrow> 's \<Rightarrow> (error + 's Package) \<times> 'w" where
  "parseLocalPackage E w filename src pkgScope =
     (let pkg = \<lparr>Package.Name = Ident.Name (File.Name src), Scope = pkgScope,
                 Files = [(filename, Some src)]\<rparr>
      in (case Split E filename of
            (d0, f) \<Rightarrow>
              (let d = (if d0 = [] then ''./'' else d0)
               in if \<not> Open E d then (Inl errNoPkgFiles, w)
                  else (case Readdirnames E d of
                          None \<Rightarrow> (Inl errNoPkgFiles, w)
                        | Some list \<Rightarrow>
                            (case scanSiblings E d f (pkg, w) list of
                               (pkg', w') \<Rightarrow>
                                 if length (Files pkg') = 1 then (Inl errNoPkgFiles, w')
                                 else (Inr pkg', w'))))))"

section \<open>The resolver\<close>

text \<open>
  The flags of \<^verbatim>\<open>Application\<close> and its field \<^verbatim>\<open>expr\<close>. The embedded profiling flags and
  \<^verbatim>\<open>ForcePackages\<close>, which the functions below do not read, are left out.
\<close>

record Application =
  ReadStdin :: bool
  Offset :: int
  Debug :: bool
  Type :: bool
  Members :: bool
  All :: bool
  Filename :: string
  Acme :: bool
  JSON :: bool
  expr :: string

definition prepare :: "Application \<Rightarrow> Application" where
  "prepare app =
     (let app1 = app\<lparr>Application.Members := Application.Members app \<or> Application.All app\<rparr>
      in app1\<lparr>Application.Type := Application.Type app1 \<or> Application.Members app1\<rparr>)"

text \<open>The message of an error (\<^verbatim>\<open>err.Error()\<close>), from the format strings of \<^verbatim>\<open>godef.go\<close>.\<close>

definition Error :: "('w, 's, 'a) env \<Rightarrow> error \<Rightarrow> string" where
  "Error E e =
     (case e of
        CannotParse filename m \<Rightarrow>
          ''cannot parse '' @ filename @ '': '' @ (case m of None \<Rightarrow> ''<nil>'' | Some x \<Rightarrow> x)
      | CannotParseExpression m \<Rightarrow> ''cannot parse expression: '' @ m
      | NoIdentifierInExpression \<Rightarrow> ''no identifier found in expression''
      | NoExpressionOrOffset \<Rightarrow> ''no expression or offset specified''
      | InvalidStringLiteral v \<Rightarrow> ''invalid string literal '' @ Quote E v @ '' in ast.ImportSpec''
      | ErrorFindingImportPath path m \<Rightarrow> ''error finding import path for '' @ path @ '': '' @ m
      | NoDeclarationFound r \<Rightarrow> ''no declaration found for '' @ r
      | NoIdentifierFound \<Rightarrow> ''no identifier found''
      | errNoPkgFiles \<Rightarrow> ''no more package files found''
      | JSONMarshalError m \<Rightarrow> ''JSON marshal error: '' @ m)"

definition importPath :: "('w, 's, 'a) env \<Rightarrow> BasicLit \<Rightarrow> error + string" where
  "importPath E path =
     (case Unquote E (LitValue path) of
        None \<Rightarrow> Inl (InvalidStringLiteral (LitValue path))
      | Some p \<Rightarrow> Inr p)"

text \<open>
  \<^verbatim>\<open>oldGodef\<close> returns an object (or nil), a type and an error; the model returns the
  error, or the object and the type, together with the state of the process and what
  was written to standard output. Its body is cut at its two switches.

  The first switch (lines 137 to 153): the node that the query addresses.
\<close>

definition queryNode :: "('w, 's, 'a) env \<Rightarrow> Application \<Rightarrow> 'w \<Rightarrow> 's File \<Rightarrow> int \<Rightarrow> (error + Node) \<times> 'w" where
  "queryNode E app w f searchpos =
     (if expr app \<noteq> [] then parseExpr E w (File.Scope f) (expr app)
      else if searchpos \<ge> 0 then findIdentifier E w f searchpos
      else (Inl NoExpressionOrOffset, w))"

text \<open>The case \<^verbatim>\<open>*ast.ImportSpec\<close> of the second switch (lines 155 to 164).\<close>

definition resolveImport :: "('w, 's, 'a) env \<Rightarrow> string \<Rightarrow> BasicLit \<Rightarrow> error + astObject option \<times> 'a" where
  "resolveImport E filename path =
     (case importPath E path of
        Inl e \<Rightarrow> Inl e
      | Inr p \<Rightarrow>
          (case Import E p (Dir E filename) of
             Inl e \<Rightarrow> Inl (ErrorFindingImportPath p e)
           | Inr dir \<Rightarrow>
               Inr (Some \<lparr>astObject.Kind = ast_Pkg, Name = [], Decl = None, Data = Some dir\<rparr>,
                    zeroType E)))"

text \<open>
  The case \<^verbatim>\<open>ast.Expr\<close> from the call of \<^verbatim>\<open>parseLocalPackage\<close> on (lines 172 to 188):
  the declarations of the other files of the package are added and the expression is
  typed again.
\<close>

definition packageTier :: "('w, 's, 'a) env \<Rightarrow> Application \<Rightarrow> 'w \<Rightarrow> string \<Rightarrow> 's File \<Rightarrow> 's \<Rightarrow> Node
    \<Rightarrow> (error + astObject option \<times> 'a) \<times> 'w \<times> string" where
  "packageTier E app w filename f pkgScope e =
     (case parseLocalPackage E w filename f pkgScope of
        (pkg, w1) \<Rightarrow>
          (let out = (case pkg of
                        Inl perr \<Rightarrow>
                          if \<not> Application.Type app
                          then ''parseLocalPackage error: '' @ Error E perr @ [CHR 0x0A]
                          else []
                      | Inr p \<Rightarrow> [])
           in (case (if expr app \<noteq> [] then parseExpr E w1 (File.Scope f) (expr app)
                     else (Inr e, w1)) of
                 (Inl perr, w2) \<Rightarrow> (Inl perr, w2, out)
               | (Inr e', w2) \<Rightarrow>
                   (case ExprType E w2 e' of
                      ((Some obj, typ), w3) \<Rightarrow> (Inr (Some obj, typ), w3, out)
                    | ((None, typ), w3) \<Rightarrow>
                        (Inl (NoDeclarationFound (prettyNode E e')), w3, out)))))"

text \<open>The whole case \<^verbatim>\<open>ast.Expr\<close> (lines 165 to 189).\<close>

definition resolveExpr :: "('w, 's, 'a) env \<Rightarrow> Application \<Rightarrow> 'w \<Rightarrow> string \<Rightarrow> 's File \<Rightarrow> 's \<Rightarrow> Node
    \<Rightarrow> (error + astObject option \<times> 'a) \<times> 'w \<times> string" where
  "resolveExpr E app w filename f pkgScope e =
     (if \<not> Application.Type app
      then (case ExprType E w e of
              ((Some obj, typ), w1) \<Rightarrow> (Inr (Some obj, typ), w1, [])
            | ((None, typ), w1) \<Rightarrow> packageTier E app w1 filename f pkgScope e)
      else packageTier E app w filename f pkgScope e)"

definition oldGodef :: "('w, 's, 'a) env \<Rightarrow> Application \<Rightarrow> 'w \<Rightarrow> string \<Rightarrow> string \<Rightarrow> int
    \<Rightarrow> (error + astObject option \<times> 'a) \<times> 'w \<times> string" where
  "oldGodef E app w filename src searchpos =
     (case NewScope E w of
        (pkgScope, w0) \<Rightarrow>
          (case ParseFile E w0 filename (Some src) False (Some pkgScope) of
             ((None, perr), w1) \<Rightarrow> (Inl (CannotParse filename perr), w1, [])
           | ((Some f, perr), w1) \<Rightarrow>
               (case queryNode E app w1 f searchpos of
                  (Inl e, w2) \<Rightarrow> (Inl e, w2, [])
                | (Inr n, w2) \<Rightarrow>
                    (case n of
                       ImportSpec nm path \<Rightarrow> (resolveImport E filename path, w2, [])
                     | _ \<Rightarrow>
                         if isExpr n then resolveExpr E app w2 filename f pkgScope n
                         else (Inr (None, zeroType E), w2, [])))))"


section \<open>The result and its formatting\<close>

record Position =
  Filename :: string
  Line :: int
  Column :: int

text \<open>\<^verbatim>\<open>Kind\<close> is a string type with eight named constants.\<close>

type_synonym Kind = string

definition BadKind :: Kind where "BadKind = ''bad''"
definition FuncKind :: Kind where "FuncKind = ''func''"
definition VarKind :: Kind where "VarKind = ''var''"
definition ImportKind :: Kind where "ImportKind = ''import''"
definition ConstKind :: Kind where "ConstKind = ''const''"
definition LabelKind :: Kind where "LabelKind = ''label''"
definition TypeKind :: Kind where "TypeKind = ''type''"
definition PathKind :: Kind where "PathKind = ''path''"

datatype 'a Object =
  Object (Name: string) (Kind: Kind) (Pkg: string) (Position: Position)
         (Members: "'a Object list") (Type: "'a iface option") (Value: "'a iface option")

text \<open>The decimal rendering of an integer (\<^verbatim>\<open>%d\<close>, and a number in JSON).\<close>

fun digits :: "nat \<Rightarrow> string" where
  "digits n =
     (if n < 10 then [''0123456789'' ! n]
      else digits (n div 10) @ [''0123456789'' ! (n mod 10)])"

declare digits.simps [simp del]

definition itoa :: "int \<Rightarrow> string" where
  "itoa i = (if i < 0 then CHR ''-'' # digits (nat (- i)) else digits (nat i))"

text \<open>\<^verbatim>\<open>Position.Format\<close>: how a position is written under any verb.\<close>

definition Format :: "Position \<Rightarrow> string" where
  "Format pos =
     (if Position.Filename pos \<noteq> [] \<and> Line pos > 0
      then Position.Filename pos @ '':'' @ itoa (Line pos) @ '':'' @ itoa (Column pos)
      else if Line pos > 0 then itoa (Line pos) @ '':'' @ itoa (Column pos)
      else if Position.Filename pos \<noteq> [] then Position.Filename pos
      else ''-'')"

text \<open>
  \<^verbatim>\<open>json.Marshal\<close> on a \<^verbatim>\<open>Position\<close>, following the struct tags: the three keys in the
  order of the fields, each left out when its value is empty or zero
  (\<^verbatim>\<open>omitempty\<close>). Encoding a struct of a string and two integers does not fail.
\<close>

definition jsonField :: "string \<Rightarrow> string \<Rightarrow> string" where
  "jsonField key v = [CHR 0x22] @ key @ [CHR 0x22] @ '':'' @ v"

fun joinComma :: "string list \<Rightarrow> string" where
  "joinComma [] = []"
| "joinComma [x] = x"
| "joinComma (x # y # ys) = x @ '','' @ joinComma (y # ys)"

definition Marshal :: "('w, 's, 'a) env \<Rightarrow> Position \<Rightarrow> string + string" where
  "Marshal E pos =
     Inr (''{'' @ joinComma
            ((if Position.Filename pos \<noteq> []
              then [jsonField ''filename'' (jsonString E (Position.Filename pos))] else []) @
             (if Line pos \<noteq> 0 then [jsonField ''line'' (itoa (Line pos))] else []) @
             (if Column pos \<noteq> 0 then [jsonField ''column'' (itoa (Column pos))] else []))
          @ ''}'')"

text \<open>The verb \<^verbatim>\<open>%s\<close> on the value of an \<^verbatim>\<open>interface{}\<close>.\<close>

definition Sprint_s :: "('w, 's, 'a) env \<Rightarrow> 'a iface option \<Rightarrow> string" where
  "Sprint_s E v =
     (case v of
        None \<Rightarrow> ''%!s(<nil>)''
      | Some (StringValue x) \<Rightarrow> x
      | Some (GoValue a) \<Rightarrow> formatS E a)"

definition typeStr :: "('w, 's, 'a) env \<Rightarrow> 'a Object \<Rightarrow> string" where
  "typeStr E obj =
     (let k = Object.Kind obj;
          buf = (if k = VarKind \<or> k = FuncKind then []
                 else if k = ImportKind then k @ '' (''
                 else k @ '' '');
          buf = buf @ Object.Name obj;
          buf = (case Object.Type obj of
                   None \<Rightarrow> buf
                 | Some t \<Rightarrow> buf @ '' '' @ prettyValue E t)
      in (case Object.Value obj of
            None \<Rightarrow> buf
          | Some v \<Rightarrow>
              if k \<noteq> VarKind \<and> k \<noteq> FuncKind \<and> k = ImportKind
              then buf @ '' '' @ prettyValue E v @ '')''
              else buf @ '' = '' @ prettyValue E v))"

text \<open>\<^verbatim>\<open>strings.Replace(s, "\n", "\n\t\t", -1)\<close>.\<close>

definition indentLines :: "string \<Rightarrow> string" where
  "indentLines s = concat (map (\<lambda>c. if c = CHR 0x0A then [CHR 0x0A, CHR 0x09, CHR 0x09] else [c]) s)"

text \<open>The loop of \<^verbatim>\<open>print\<close> over the members.\<close>

fun printMembers :: "('w, 's, 'a) env \<Rightarrow> Application \<Rightarrow> 'a Object list \<Rightarrow> string" where
  "printMembers E app [] = []"
| "printMembers E app (obj # rest) =
     (if \<not> Application.All app \<and> (Pkg obj \<noteq> [] \<or> \<not> IsExported E (Object.Name obj))
      then printMembers E app rest
      else [CHR 0x09] @ indentLines (typeStr E obj) @ [CHR 0x0A] @
           [CHR 0x09, CHR 0x09] @ Format (Position obj) @ [CHR 0x0A] @
           printMembers E app rest)"

text \<open>\<^verbatim>\<open>print\<close>: what is written to \<^verbatim>\<open>out\<close>, and the error returned (or nil).\<close>

definition print :: "('w, 's, 'a) env \<Rightarrow> Application \<Rightarrow> 'a Object \<Rightarrow> string \<times> error option" where
  "print E app obj =
     (if Object.Kind obj = PathKind then (Sprint_s E (Value obj) @ [CHR 0x0A], None)
      else if JSON app
      then (case Marshal E (Position obj) of
              Inl e \<Rightarrow> ([], Some (JSONMarshalError e))
            | Inr jsonStr \<Rightarrow> (jsonStr @ [CHR 0x0A], None))
      else (let out = Format (Position obj) @ [CHR 0x0A]
            in if Object.Kind obj = BadKind \<or> \<not> Application.Type app then (out, None)
               else (let out = out @ typeStr E obj @ [CHR 0x0A]
                     in if Application.Members app
                        then (out @ printMembers E app (Object.Members obj), None)
                        else (out, None))))"

text \<open>
  Modelled from the spec: the result that is assembled from the object that \<^verbatim>\<open>oldGodef\<close>
  returns for an import specifier (the caller of \<^verbatim>\<open>oldGodef\<close> does it, and is not among
  the sources): "a path-kind Result whose Value is that directory (no Position, no
  Type)".
\<close>

definition pathResult :: "astObject \<Rightarrow> 'a Object" where
  "pathResult obj =
     Object [] PathKind [] \<lparr>Filename = [], Line = 0, Column = 0\<rparr> [] None
            (map_option StringValue (Data obj))"


section \<open>The traversal order, as the specification words it\<close>

text \<open>
  The nodes of a tree in depth-first order, each node before its children. This list
  and the predicate \<open>spanContains\<close> follow the words of the specification of the node
  locator; they are compared below with \<open>Walk\<close> and \<open>visit\<close>.
\<close>

fun preorder :: "Node \<Rightarrow> Node list"
and preorderList :: "Node list \<Rightarrow> Node list"
and preorderFields :: "Field list \<Rightarrow> Node list"
where
  "preorder (Ident i) = [Ident i]"
| "preorder (BasicLit l) = [BasicLit l]"
| "preorder (SelectorExpr x sel) = SelectorExpr x sel # preorder x @ [Ident sel]"
| "preorder (StarExpr x) = StarExpr x # preorder x"
| "preorder (ImportSpec nm path) =
     ImportSpec nm path # (case nm of None \<Rightarrow> [] | Some i \<Rightarrow> [Ident i]) @ [BasicLit path]"
| "preorder (StructType flds) = StructType flds # preorderFields flds"
| "preorder (Other b ns) = Other b ns # preorderList ns"
| "preorderList [] = []"
| "preorderList (n # ns) = preorder n @ preorderList ns"
| "preorderFields [] = []"
| "preorderFields (Field names t # rest) = map Ident names @ preorder t @ preorderFields rest"

definition preorderFile :: "'s File \<Rightarrow> Node list" where
  "preorderFile f = Ident (File.Name f) # preorderList (Decls f)"

text \<open>
  The embedded identifiers of a struct type, in the order of its fields, and the first
  of them whose span contains the offset.
\<close>

definition embeddedMatch :: "('w, 's, 'a) env \<Rightarrow> 'w \<Rightarrow> int \<Rightarrow> Field list \<Rightarrow> Ident option" where
  "embeddedMatch E w searchpos flds =
     find (\<lambda>ident. found E w searchpos (NamePos ident) (Ident_End ident))
          (List.map_filter embeddedIdent flds)"

text \<open>The span test of each kind of node, by the rules of the specification.\<close>

fun spanContains :: "('w, 's, 'a) env \<Rightarrow> 'w \<Rightarrow> int \<Rightarrow> Node \<Rightarrow> bool" where
  "spanContains E w searchpos (Ident i) = found E w searchpos (NamePos i) (Ident_End i)"
| "spanContains E w searchpos (SelectorExpr x sel) =
     found E w searchpos (NamePos sel) (Ident_End sel)"
| "spanContains E w searchpos (ImportSpec nm path) =
     found E w searchpos (ImportSpec_Pos nm path) (ImportSpec_End nm path)"
| "spanContains E w searchpos (StructType flds) = (embeddedMatch E w searchpos flds \<noteq> None)"
| "spanContains E w searchpos (BasicLit l) = False"
| "spanContains E w searchpos (StarExpr x) = False"
| "spanContains E w searchpos (Other b ns) = False"

text \<open>
  What the locator answers at a node whose span contains the offset: the node itself,
  or for a struct type the outcome of parsing the name of the embedded identifier.
\<close>

definition located :: "('w, 's, 'a) env \<Rightarrow> 'w \<Rightarrow> 's \<Rightarrow> int \<Rightarrow> Node \<Rightarrow> (error + Node) \<times> 'w" where
  "located E w s searchpos n =
     (case n of
        StructType flds \<Rightarrow>
          (case embeddedMatch E w searchpos flds of
             Some ident \<Rightarrow> parseExpr E w s (Ident.Name ident)
           | None \<Rightarrow> (Inl NoIdentifierFound, w))
      | _ \<Rightarrow> (Inr n, w))"

text \<open>The first result that a visitor gives on a list of nodes.\<close>

fun firstSome :: "('n \<Rightarrow> 'r option) \<Rightarrow> 'n list \<Rightarrow> 'r option" where
  "firstSome v [] = None"
| "firstSome v (x # xs) = (case v x of Some r \<Rightarrow> Some r | None \<Rightarrow> firstSome v xs)"

section \<open>A small project for concrete evaluation\<close>

text \<open>
  The directory \<^verbatim>\<open>p/\<close> holds \<^verbatim>\<open>README\<close>, the principal file \<^verbatim>\<open>a.go\<close>, \<^verbatim>\<open>d.go\<close> (package
  \<^verbatim>\<open>main\<close>, does not parse), \<^verbatim>\<open>c.go\<close> (package \<^verbatim>\<open>other\<close>) and \<^verbatim>\<open>b.go\<close> (package \<^verbatim>\<open>main\<close>,
  declares \<^verbatim>\<open>helper\<close>). The principal file is
  \<^verbatim>\<open>package main; import "fmt"; type S struct { T; x fmt.Stringer }\<close>
  laid out on six lines, so that \<^verbatim>\<open>main\<close> is at offset 8, the import path at 20, \<^verbatim>\<open>S\<close> at
  31, \<^verbatim>\<open>T\<close> at 43, \<^verbatim>\<open>x\<close> at 46, \<^verbatim>\<open>fmt\<close> at 48 and \<^verbatim>\<open>Stringer\<close> at 52; the file has base 1 in
  the file set. The state of the process is the list of the names declared in the
  package scope.
\<close>

definition fmtLit :: BasicLit where
  "fmtLit = MkBasicLit 21 ([CHR 0x22] @ ''fmt'' @ [CHR 0x22])"

definition structS :: Node where
  "structS = StructType [Field [] (Ident (MkIdent 44 ''T'')),
                         Field [MkIdent 47 ''x'']
                               (SelectorExpr (Ident (MkIdent 49 ''fmt'')) (MkIdent 53 ''Stringer''))]"

definition fileA :: "unit File" where
  "fileA = \<lparr>File.Name = MkIdent 9 ''main'',
            Decls = [Other False [ImportSpec None fmtLit],
                     Other False [Other False [Ident (MkIdent 32 ''S''), structS]]],
            Scope = ()\<rparr>"

definition fileB :: "unit File" where
  "fileB = \<lparr>File.Name = MkIdent 9 ''main'',
            Decls = [Other False [Ident (MkIdent 19 ''helper'')]],
            Scope = ()\<rparr>"

definition testParseFile :: "string list \<Rightarrow> string \<Rightarrow> string option \<Rightarrow> bool \<Rightarrow> unit option
    \<Rightarrow> (unit File option \<times> string option) \<times> string list" where
  "testParseFile w filename src clauseOnly scope =
     (if filename = ''p/a.go''
      then ((Some fileA, None), if scope = None then w else w @ [''S''])
      else if filename = ''p/b.go''
      then ((Some fileB, None), if scope = None then w else w @ [''helper''])
      else if filename = ''p/c.go''
      then ((Some \<lparr>File.Name = MkIdent 9 ''other'', Decls = [], Scope = ()\<rparr>, None), w)
      else if filename = ''p/d.go''
      then (if clauseOnly
            then ((Some \<lparr>File.Name = MkIdent 9 ''main'', Decls = [], Scope = ()\<rparr>, None), w)
            else ((None, Some ''p/d.go:2:1: expected declaration''), w))
      else ((None, Some ''no such file''), w))"

definition testExprType :: "string list \<Rightarrow> Node \<Rightarrow> (astObject option \<times> string) \<times> string list" where
  "testExprType w e =
     (case e of
        Ident i \<Rightarrow>
          if Ident.Name i \<in> set w
          then ((Some \<lparr>astObject.Kind = ast_Typ, Name = Ident.Name i, Decl = None, Data = None\<rparr>,
                 ''type''), w)
          else ((None, []), w)
      | _ \<Rightarrow> ((None, []), w))"

definition testJsonString :: "string \<Rightarrow> string" where
  "testJsonString x =
     [CHR 0x22] @
     concat (map (\<lambda>c. if c = CHR 0x22 then [CHR 0x5C, CHR 0x22]
                        else if c = CHR 0x5C then [CHR 0x5C, CHR 0x5C]
                        else if c = CHR 0x0A then [CHR 0x5C, CHR ''n'']
                        else [c]) x) @
     [CHR 0x22]"

definition testEnv :: "(string list, unit, string) env" where
  "testEnv =
     \<lparr>NewScope = (\<lambda>w. ((), w)),
      ParseFile = testParseFile,
      ParseExpr = (\<lambda>w s ex. (if ex = [] then Inl ''empty expression''
                             else Inr (Ident (MkIdent 1 ex)), w)),
      ExprType = testExprType,
      Position_Offset = (\<lambda>w p. p - 1),
      Unquote = (\<lambda>s. if 2 \<le> length s \<and> hd s = CHR 0x22 \<and> last s = CHR 0x22
                      then Some (butlast (tl s)) else None),
      Import = (\<lambda>path srcDir. if path = ''fmt'' then Inr ''/go/src/fmt''
                               else Inl ''cannot find package''),
      Dir = (\<lambda>filename. ''p''),
      Split = (\<lambda>filename. (take 2 filename, drop 2 filename)),
      Join = (\<lambda>d pf. d @ pf),
      Open = (\<lambda>d. d = ''p/''),
      Readdirnames = (\<lambda>d. Some [''README'', ''a.go'', ''d.go'', ''c.go'', ''b.go'']),
      prettyNode = (\<lambda>n. case n of Ident i \<Rightarrow> Ident.Name i | _ \<Rightarrow> ''?''),
      prettyValue = (\<lambda>v. case v of StringValue x \<Rightarrow> x | GoValue x \<Rightarrow> x),
      formatS = (\<lambda>x. x),
      Quote = (\<lambda>x. [CHR 0x22] @ x @ [CHR 0x22]),
      IsExported = (\<lambda>x. x \<noteq> [] \<and> hd x \<in> set ''ABCDEFGHIJKLMNOPQRSTUVWXYZ''),
      jsonString = testJsonString,
      zeroType = []\<rparr>"

definition testApp :: Application where
  "testApp = \<lparr>ReadStdin = False, Offset = 0, Debug = False, Type = False, Members = False,
              All = False, Filename = ''p/a.go'', Acme = False, JSON = False, expr = []\<rparr>"


text \<open>A result for the type \<^verbatim>\<open>S\<close> of the principal file, with one member.\<close>

definition typeS :: "string Object" where
  "typeS =
     Object ''S'' TypeKind [] \<lparr>Filename = ''p/a.go'', Line = 3, Column = 0\<rparr>
       [Object ''T'' VarKind [] \<lparr>Filename = ''p/a.go'', Line = 4, Column = 2\<rparr> [] None None]
       (Some (GoValue ''struct{T; x fmt.Stringer}'')) None"

section \<open>Evaluating the small project\<close>

lemmas eval_defs =
  testEnv_def testParseFile_def testExprType_def fileA_def fileB_def structS_def fmtLit_def
  testApp_def prepare_def queryNode_def findIdentifier_def WalkFile_def found_def Ident_End_def
  ImportSpec_Pos_def ImportSpec_End_def embeddedIdent_def parseExpr_def sendResult_def received_def

lemmas eval_package_defs =
  packageTier_def parseLocalPackage_def scanStep_def pkgName_def hasSuffix_def Error_def

section \<open>The flags after preparation\<close>

lemma prepare_fields:
  "Application.All (prepare app) = Application.All app"
  "Application.Members (prepare app) = (Application.Members app \<or> Application.All app)"
  "Application.Type (prepare app) =
     (Application.Type app \<or> Application.Members app \<or> Application.All app)"
  "expr (prepare app) = expr app"
  "JSON (prepare app) = JSON app"
  by (simp_all add: prepare_def Let_def)

lemma queryNode_prepare:
  "queryNode E (prepare app) w f searchpos = queryNode E app w f searchpos"
  by (simp add: queryNode_def prepare_fields)

text \<open>
  When the principal file parses and the query addresses an identifier or a selector
  expression, \<open>oldGodef\<close> is the case \<^verbatim>\<open>ast.Expr\<close> of its second switch.
\<close>

lemma oldGodef_expr:
  assumes "NewScope E w = (pkgScope, w0)"
    and "ParseFile E w0 filename (Some src) False (Some pkgScope) = ((Some f, perr), w1)"
    and "queryNode E app w1 f searchpos = (Inr n, w2)"
    and "n = Ident i \<or> n = SelectorExpr x sel"
  shows "oldGodef E app w filename src searchpos = resolveExpr E app w2 filename f pkgScope n"
  using assms by (auto simp: oldGodef_def)

text \<open>
  C10: after \<open>prepare\<close> the flag \<open>All\<close> implies \<open>Members\<close> and \<open>Members\<close> implies \<open>Type\<close>, so a
  request for members (public or all) also turns the type flag on. Consequently, for
  such a request on an identifier or a selector expression, \<open>oldGodef\<close> does not try the
  local declarations first: it is the package tier, run in the state that the query
  dispatch left.
\<close>

theorem prepare_members_skip_local_tier:
  "(Application.All (prepare app) \<longrightarrow> Application.Members (prepare app)) \<and>
   (Application.Members (prepare app) \<longrightarrow> Application.Type (prepare app)) \<and>
   ((Application.Members app \<or> Application.All app) \<and>
    NewScope E w = (pkgScope, w0) \<and>
    ParseFile E w0 filename (Some src) False (Some pkgScope) = ((Some f, perr), w1) \<and>
    queryNode E app w1 f searchpos = (Inr n, w2) \<and>
    (n = Ident i \<or> n = SelectorExpr x sel)
    \<longrightarrow> oldGodef E (prepare app) w filename src searchpos =
          packageTier E (prepare app) w2 filename f pkgScope n)"
proof (intro conjI impI)
  show "Application.Members (prepare app)" if "Application.All (prepare app)"
    using that by (simp add: prepare_fields)
  show "Application.Type (prepare app)" if "Application.Members (prepare app)"
    using that by (auto simp add: prepare_fields)
  show "oldGodef E (prepare app) w filename src searchpos =
          packageTier E (prepare app) w2 filename f pkgScope n"
    if h: "(Application.Members app \<or> Application.All app) \<and>
      NewScope E w = (pkgScope, w0) \<and>
      ParseFile E w0 filename (Some src) False (Some pkgScope) = ((Some f, perr), w1) \<and>
      queryNode E app w1 f searchpos = (Inr n, w2) \<and>
      (n = Ident i \<or> n = SelectorExpr x sel)"
  proof -
    have t: "Application.Type (prepare app)"
      using h by (auto simp: prepare_fields)
    have "oldGodef E (prepare app) w filename src searchpos =
            resolveExpr E (prepare app) w2 filename f pkgScope n"
      using h
      by (intro oldGodef_expr[where ?w0.0 = w0 and ?w1.0 = w1 and perr = perr
                                and i = i and x = x and sel = sel])
         (simp_all add: queryNode_prepare)
    then show ?thesis
      using t by (simp add: resolveExpr_def)
  qed
qed

theorem prepare_members_skip_local_tier_witness:
  "Application.All (prepare (testApp\<lparr>Application.All := True\<rparr>)) \<and>
   Application.Members (prepare (testApp\<lparr>Application.All := True\<rparr>)) \<and>
   Application.Type (prepare (testApp\<lparr>Application.All := True\<rparr>)) \<and>
   queryNode testEnv (testApp\<lparr>Application.All := True\<rparr>) [''S''] fileA 31
     = (Inr (Ident (MkIdent 32 ''S'')), [''S'']) \<and>
   oldGodef testEnv (prepare (testApp\<lparr>Application.All := True\<rparr>)) [] ''p/a.go'' ''package main'' 31 =
     packageTier testEnv (prepare (testApp\<lparr>Application.All := True\<rparr>)) [''S''] ''p/a.go'' fileA ()
       (Ident (MkIdent 32 ''S'')) \<and>
   oldGodef testEnv (prepare (testApp\<lparr>Application.All := True\<rparr>)) [] ''p/a.go'' ''package main'' 31 =
     (Inr (Some \<lparr>astObject.Kind = ast_Typ, Name = ''S'', Decl = None, Data = None\<rparr>, ''type''),
      [''S'', ''helper''], [])"
  using prepare_members_skip_local_tier
    [of "testApp\<lparr>Application.All := True\<rparr>" testEnv "[]" "()" "[]" "''p/a.go''" "''package main''"
        fileA None "[''S'']" 31 "Ident (MkIdent 32 ''S'')" "[''S'']" "MkIdent 32 ''S''"]
  by (simp add: eval_defs eval_package_defs)


section \<open>The traversal and the traversal order\<close>

lemma firstSome_append:
  "firstSome v (xs @ ys) = (case firstSome v xs of Some r \<Rightarrow> Some r | None \<Rightarrow> firstSome v ys)"
  by (induction xs) (auto split: option.splits)

lemma walkIdentList_firstSome: "walkIdentList v xs = firstSome v (map Ident xs)"
  by (induction xs) (auto split: option.splits)

lemma Walk_firstSome:
  "Walk v n = firstSome v (preorder n)"
  "walkList v ns = firstSome v (preorderList ns)"
  "walkFields v flds = firstSome v (preorderFields flds)"
  by (induction v n and v ns and v flds rule: Walk_walkList_walkFields.induct)
     (auto simp: firstSome_append walkIdentList_firstSome split: option.splits)

lemma WalkFile_firstSome: "WalkFile v f = firstSome v (preorderFile f)"
  by (simp add: WalkFile_def preorderFile_def Walk_firstSome split: option.splits)

lemma structFields_embeddedMatch:
  "structFields E w s searchpos flds =
     (case embeddedMatch E w searchpos flds of
        None \<Rightarrow> None
      | Some ident \<Rightarrow> Some (sendResult (parseExpr E w s (Ident.Name ident))))"
  by (induction flds) (auto simp: embeddedMatch_def map_filter_simps split: option.splits)

lemma visit_None_iff: "visit E w s searchpos n = None \<longleftrightarrow> \<not> spanContains E w searchpos n"
  by (cases n) (auto simp: structFields_embeddedMatch split: option.splits)

lemma firstSome_visit:
  "firstSome (visit E w s searchpos) xs =
     (case find (spanContains E w searchpos) xs of
        None \<Rightarrow> None
      | Some n \<Rightarrow> visit E w s searchpos n)"
proof (induction xs)
  case Nil
  then show ?case by simp
next
  case (Cons x xs)
  then show ?case
    using visit_None_iff[of E w s searchpos x]
    by (cases "visit E w s searchpos x") auto
qed

lemma parseExpr_not_NoIdentifierFound:
  "fst (parseExpr E w s ex) \<noteq> Inl NoIdentifierFound"
  by (auto simp: parseExpr_def split: prod.splits sum.splits Node.splits)

lemma received_sendResult: "received (sendResult r) = r"
  by (auto simp: received_def sendResult_def split: prod.splits sum.splits)

lemma visit_located:
  "visit E w s searchpos n = Some r \<Longrightarrow> received r = located E w s searchpos n"
proof (cases n)
  case (StructType flds)
  assume "visit E w s searchpos n = Some r"
  with StructType show ?thesis
    by (auto simp: structFields_embeddedMatch located_def received_sendResult split: option.splits)
qed (auto simp: located_def received_def split: if_splits)

lemma located_not_NoIdentifierFound:
  assumes "spanContains E w searchpos n"
  shows "fst (located E w s searchpos n) \<noteq> Inl NoIdentifierFound"
proof (cases n)
  case (StructType flds)
  with assms obtain ident where "embeddedMatch E w searchpos flds = Some ident"
    by auto
  with StructType show ?thesis
    by (simp add: located_def parseExpr_not_NoIdentifierFound)
qed (simp_all add: located_def)

lemma findIdentifier_find:
  "findIdentifier E w f searchpos =
     (case find (spanContains E w searchpos) (preorderFile f) of
        None \<Rightarrow> (Inl NoIdentifierFound, w)
      | Some n \<Rightarrow> located E w (File.Scope f) searchpos n)"
proof (cases "find (spanContains E w searchpos) (preorderFile f)")
  case None
  then show ?thesis
    by (simp add: findIdentifier_def WalkFile_firstSome firstSome_visit received_def)
next
  case (Some n)
  then have "spanContains E w searchpos n"
    by (auto simp: find_Some_iff)
  then obtain r where r: "visit E w (File.Scope f) searchpos n = Some r"
    using visit_None_iff[of E w "File.Scope f" searchpos n] by auto
  with Some show ?thesis
    by (simp add: findIdentifier_def WalkFile_firstSome firstSome_visit visit_located)
qed

lemma find_first:
  "(\<forall>m\<in>set before. \<not> P m) \<Longrightarrow> P n \<Longrightarrow> find P (before @ n # after) = Some n"
  by (induction before) auto

text \<open>
  C2: the locator tests a span from the offset of its start to that offset plus its
  length, both ends included. Its answer is decided by the first node, in depth-first
  order, whose span contains the offset: whatever comes after that node in the order
  (its descendants and later siblings) plays no part. The answer is the error
  \<open>NoIdentifierFound\<close> exactly when no node of the file has a span that contains the
  offset.
\<close>

theorem findIdentifier_first_match:
  "(found E w searchpos startPos endPos \<longleftrightarrow>
      Position_Offset E w startPos \<le> searchpos \<and>
      searchpos \<le> Position_Offset E w startPos + (endPos - startPos)) \<and>
   findIdentifier E w f searchpos =
     (case find (spanContains E w searchpos) (preorderFile f) of
        None \<Rightarrow> (Inl NoIdentifierFound, w)
      | Some n \<Rightarrow> located E w (File.Scope f) searchpos n) \<and>
   (preorderFile f = before @ n # after \<and>
    (\<forall>m\<in>set before. \<not> spanContains E w searchpos m) \<and>
    spanContains E w searchpos n
    \<longrightarrow> findIdentifier E w f searchpos = located E w (File.Scope f) searchpos n) \<and>
   (fst (findIdentifier E w f searchpos) = Inl NoIdentifierFound \<longleftrightarrow>
      (\<forall>m\<in>set (preorderFile f). \<not> spanContains E w searchpos m))"
proof (intro conjI impI)
  show "found E w searchpos startPos endPos \<longleftrightarrow>
      Position_Offset E w startPos \<le> searchpos \<and>
      searchpos \<le> Position_Offset E w startPos + (endPos - startPos)"
    by (simp add: found_def Let_def)
  show "findIdentifier E w f searchpos =
     (case find (spanContains E w searchpos) (preorderFile f) of
        None \<Rightarrow> (Inl NoIdentifierFound, w)
      | Some n \<Rightarrow> located E w (File.Scope f) searchpos n)"
    by (rule findIdentifier_find)
  show "findIdentifier E w f searchpos = located E w (File.Scope f) searchpos n"
    if "preorderFile f = before @ n # after \<and>
        (\<forall>m\<in>set before. \<not> spanContains E w searchpos m) \<and> spanContains E w searchpos n"
    using that by (simp add: findIdentifier_find find_first)
  show "fst (findIdentifier E w f searchpos) = Inl NoIdentifierFound \<longleftrightarrow>
      (\<forall>m\<in>set (preorderFile f). \<not> spanContains E w searchpos m)"
  proof (cases "find (spanContains E w searchpos) (preorderFile f)")
    case None
    then have "\<forall>m\<in>set (preorderFile f). \<not> spanContains E w searchpos m"
      by (simp add: find_None_iff)
    with None show ?thesis
      by (simp add: findIdentifier_find)
  next
    case (Some m)
    then have m: "spanContains E w searchpos m" "m \<in> set (preorderFile f)"
      by (auto simp: find_Some_iff)
    with Some have "fst (findIdentifier E w f searchpos) \<noteq> Inl NoIdentifierFound"
      using located_not_NoIdentifierFound[OF m(1), of "File.Scope f"]
      by (simp add: findIdentifier_find)
    with m show ?thesis
      by blast
  qed
qed

theorem findIdentifier_first_match_witness:
  "found testEnv [] 12 9 13 \<and>
   findIdentifier testEnv [] fileA 12 = (Inr (Ident (MkIdent 9 ''main'')), []) \<and>
   findIdentifier testEnv [] fileA 13 = (Inl NoIdentifierFound, []) \<and>
   findIdentifier testEnv [] fileA 47 = (Inr (Ident (MkIdent 47 ''x'')), []) \<and>
   find (spanContains testEnv [] 13) (preorderFile fileA) = None"
  using findIdentifier_first_match[of testEnv "[]" 12 9 13 fileA "[]" "Ident (MkIdent 9 ''main'')"
          "preorderList (Decls fileA)"]
    findIdentifier_first_match[of testEnv "[]" 13 9 13 fileA "[]" "Ident (MkIdent 9 ''main'')"
          "preorderList (Decls fileA)"]
    findIdentifier_first_match[of testEnv "[]" 47 9 13 fileA]
  by (simp add: eval_defs preorderFile_def located_def embeddedMatch_def)

text \<open>
  C3: for a selector expression \<^verbatim>\<open>x.y\<close> the span that is tested runs from the start of the
  selector token \<^verbatim>\<open>y\<close> to the end of the expression, which is the end of \<^verbatim>\<open>y\<close>. When it
  contains the offset the answer is the whole selector expression; when it does not,
  the walk goes on into \<^verbatim>\<open>x\<close> only, so the bare identifier \<^verbatim>\<open>y\<close> is never the answer of
  its own visit.
\<close>

theorem selector_span_is_selector_token:
  "visit E w s searchpos (SelectorExpr x sel) =
     (if found E w searchpos (NamePos sel) (Ident_End sel)
      then Some (\<lparr>node = Some (SelectorExpr x sel), err = None\<rparr>, w) else None) \<and>
   Walk (visit E w s searchpos) (SelectorExpr x sel) =
     (if found E w searchpos (NamePos sel) (Ident_End sel)
      then Some (\<lparr>node = Some (SelectorExpr x sel), err = None\<rparr>, w)
      else Walk (visit E w s searchpos) x) \<and>
   located E w s searchpos (SelectorExpr x sel) = (Inr (SelectorExpr x sel), w)"
  by (simp add: located_def split: option.splits)

theorem selector_span_is_selector_token_witness:
  "found testEnv [] 16 15 (Ident_End (MkIdent 15 ''Name'')) \<and>
   \<not> found testEnv [] 12 15 (Ident_End (MkIdent 15 ''Name'')) \<and>
   Walk (visit testEnv [] () 16) (SelectorExpr (Ident (MkIdent 11 ''pkg'')) (MkIdent 15 ''Name'')) =
     Some (\<lparr>node = Some (SelectorExpr (Ident (MkIdent 11 ''pkg'')) (MkIdent 15 ''Name'')),
             err = None\<rparr>, []) \<and>
   Walk (visit testEnv [] () 12) (SelectorExpr (Ident (MkIdent 11 ''pkg'')) (MkIdent 15 ''Name'')) =
     Some (\<lparr>node = Some (Ident (MkIdent 11 ''pkg'')), err = None\<rparr>, [])"
  using selector_span_is_selector_token[of testEnv "[]" "()" 16 "Ident (MkIdent 11 ''pkg'')" "MkIdent 15 ''Name''"]
    selector_span_is_selector_token[of testEnv "[]" "()" 12 "Ident (MkIdent 11 ''pkg'')" "MkIdent 15 ''Name''"]
  by (simp add: eval_defs)

lemma in_set_map_filter:
  "x \<in> set xs \<Longrightarrow> g x = Some y \<Longrightarrow> y \<in> set (List.map_filter g xs)"
  by (induction xs) (auto split: option.splits)

lemma embeddedIdent_anonymous:
  "Names field = [] \<Longrightarrow> FieldType field = Ident ident \<or> FieldType field = StarExpr (Ident ident)
     \<Longrightarrow> embeddedIdent field = Some ident"
  by (auto simp: embeddedIdent_def)

text \<open>
  C4: when a struct type has an anonymous field whose type is an identifier, or a
  pointer to one, with a span that contains the offset, the visit of the struct type
  already ends the walk, before any field is walked. The answer is not an identifier
  node of the field: the name of the first such identifier (the identifier itself when
  no other embedded one contains the offset) is parsed as an expression against the
  scope of the file, and the parsed expression, or the error of parsing, is the answer.
\<close>

theorem struct_embedded_field_reparsed:
  assumes "field \<in> set flds"
    and "Names field = []"
    and "FieldType field = Ident ident \<or> FieldType field = StarExpr (Ident ident)"
    and "found E w searchpos (NamePos ident) (Ident_End ident)"
  shows "\<exists>first.
           embeddedMatch E w searchpos flds = Some first \<and>
           found E w searchpos (NamePos first) (Ident_End first) \<and>
           ((\<forall>other\<in>set (List.map_filter embeddedIdent flds).
               found E w searchpos (NamePos other) (Ident_End other) \<longrightarrow> other = ident)
            \<longrightarrow> first = ident) \<and>
           visit E w s searchpos (StructType flds) =
             Some (sendResult (parseExpr E w s (Ident.Name first))) \<and>
           Walk (visit E w s searchpos) (StructType flds) =
             Some (sendResult (parseExpr E w s (Ident.Name first))) \<and>
           located E w s searchpos (StructType flds) = parseExpr E w s (Ident.Name first)"
proof -
  let ?P = "\<lambda>i. found E w searchpos (NamePos i) (Ident_End i)"
  have "embeddedIdent field = Some ident"
    using assms(2,3) by (rule embeddedIdent_anonymous)
  with assms(1) have "ident \<in> set (List.map_filter embeddedIdent flds)"
    by (rule in_set_map_filter)
  with assms(4) have "find ?P (List.map_filter embeddedIdent flds) \<noteq> None"
    by (auto simp: find_None_iff)
  then obtain first where first: "embeddedMatch E w searchpos flds = Some first"
    by (auto simp: embeddedMatch_def)
  then have props: "?P first" "first \<in> set (List.map_filter embeddedIdent flds)"
    by (auto simp: embeddedMatch_def find_Some_iff)
  have "visit E w s searchpos (StructType flds) =
          Some (sendResult (parseExpr E w s (Ident.Name first)))"
    using first by (simp add: structFields_embeddedMatch)
  with first props show ?thesis
    by (auto simp: located_def)
qed

theorem struct_embedded_field_reparsed_witness:
  "Field [] (Ident (MkIdent 44 ''T'')) \<in> set
      [Field [] (Ident (MkIdent 44 ''T'')),
       Field [MkIdent 47 ''x''] (SelectorExpr (Ident (MkIdent 49 ''fmt'')) (MkIdent 53 ''Stringer''))] \<and>
   found testEnv [] 43 (NamePos (MkIdent 44 ''T'')) (Ident_End (MkIdent 44 ''T'')) \<and>
   Walk (visit testEnv [] () 43) structS =
     Some (\<lparr>node = Some (Ident (MkIdent 1 ''T'')), err = None\<rparr>, []) \<and>
   findIdentifier testEnv [] fileA 43 = (Inr (Ident (MkIdent 1 ''T'')), [])"
  using struct_embedded_field_reparsed[of "Field [] (Ident (MkIdent 44 ''T''))"
     "[Field [] (Ident (MkIdent 44 ''T'')),
       Field [MkIdent 47 ''x''] (SelectorExpr (Ident (MkIdent 49 ''fmt'')) (MkIdent 53 ''Stringer''))]"
     "MkIdent 44 ''T''" testEnv "[]" 43 "()"]
  by (simp add: eval_defs)



section \<open>The query dispatch\<close>

lemma oldGodef_parsed:
  assumes "NewScope E w = (pkgScope, w0)"
    and "ParseFile E w0 filename (Some src) False (Some pkgScope) = ((Some f, perr), w1)"
  shows "oldGodef E app w filename src searchpos =
     (case queryNode E app w1 f searchpos of
        (Inl e, w2) \<Rightarrow> (Inl e, w2, [])
      | (Inr n, w2) \<Rightarrow>
          (case n of
             ImportSpec nm path \<Rightarrow> (resolveImport E filename path, w2, [])
           | _ \<Rightarrow>
               if isExpr n then resolveExpr E app w2 filename f pkgScope n
               else (Inr (None, zeroType E), w2, [])))"
  using assms by (simp add: oldGodef_def)

text \<open>
  C7: a query expression that is not empty is the one that is resolved, by parsing it
  against the scope of the principal file, and the offset then has no influence on the
  outcome of \<open>oldGodef\<close>, whether it is negative or not. The offset is used only when the
  expression is empty and the offset is not negative. With an empty expression and a
  negative offset the dispatch fails with \<open>NoExpressionOrOffset\<close>, and so does \<open>oldGodef\<close>
  once the principal file has been parsed.
\<close>

theorem expression_takes_precedence:
  "(expr app \<noteq> [] \<longrightarrow>
      queryNode E app w1 f searchpos = parseExpr E w1 (File.Scope f) (expr app) \<and>
      oldGodef E app w filename src searchpos = oldGodef E app w filename src searchpos') \<and>
   (expr app = [] \<and> 0 \<le> searchpos \<longrightarrow>
      queryNode E app w1 f searchpos = findIdentifier E w1 f searchpos) \<and>
   (expr app = [] \<and> searchpos < 0 \<longrightarrow>
      queryNode E app w1 f searchpos = (Inl NoExpressionOrOffset, w1)) \<and>
   (expr app = [] \<and> searchpos < 0 \<and>
    NewScope E w = (pkgScope, w0) \<and>
    ParseFile E w0 filename (Some src) False (Some pkgScope) = ((Some f, perr), w1) \<longrightarrow>
      oldGodef E app w filename src searchpos = (Inl NoExpressionOrOffset, w1, []))"
proof (intro conjI impI)
  show "queryNode E app w1 f searchpos = parseExpr E w1 (File.Scope f) (expr app)"
    if "expr app \<noteq> []"
    using that by (simp add: queryNode_def)
  show "oldGodef E app w filename src searchpos = oldGodef E app w filename src searchpos'"
    if "expr app \<noteq> []"
  proof -
    have "queryNode E app v g searchpos = queryNode E app v g searchpos'" for v g
      using that by (simp add: queryNode_def)
    then show ?thesis
      by (simp add: oldGodef_def split: prod.splits option.splits)
  qed
  show "queryNode E app w1 f searchpos = findIdentifier E w1 f searchpos"
    if "expr app = [] \<and> 0 \<le> searchpos"
    using that by (simp add: queryNode_def)
  show "queryNode E app w1 f searchpos = (Inl NoExpressionOrOffset, w1)"
    if "expr app = [] \<and> searchpos < 0"
    using that by (simp add: queryNode_def)
  show "oldGodef E app w filename src searchpos = (Inl NoExpressionOrOffset, w1, [])"
    if "expr app = [] \<and> searchpos < 0 \<and>
        NewScope E w = (pkgScope, w0) \<and>
        ParseFile E w0 filename (Some src) False (Some pkgScope) = ((Some f, perr), w1)"
    using that by (simp add: oldGodef_def queryNode_def)
qed

theorem expression_takes_precedence_witness:
  "expr (testApp\<lparr>expr := ''S''\<rparr>) \<noteq> [] \<and>
   oldGodef testEnv (testApp\<lparr>expr := ''S''\<rparr>) [] ''p/a.go'' ''package main'' 22 =
     oldGodef testEnv (testApp\<lparr>expr := ''S''\<rparr>) [] ''p/a.go'' ''package main'' (- 1) \<and>
   oldGodef testEnv (testApp\<lparr>expr := ''S''\<rparr>) [] ''p/a.go'' ''package main'' 22 =
     (Inr (Some \<lparr>astObject.Kind = ast_Typ, Name = ''S'', Decl = None, Data = None\<rparr>, ''type''),
      [''S''], []) \<and>
   oldGodef testEnv testApp [] ''p/a.go'' ''package main'' 22 =
     (Inr (Some \<lparr>astObject.Kind = ast_Pkg, Name = [], Decl = None, Data = Some ''/go/src/fmt''\<rparr>, []),
      [''S''], []) \<and>
   oldGodef testEnv testApp [] ''p/a.go'' ''package main'' (- 1) =
     (Inl NoExpressionOrOffset, [''S''], [])"
  using expression_takes_precedence[of "testApp\<lparr>expr := ''S''\<rparr>" testEnv "[''S'']" fileA 22 "[]"
          "''p/a.go''" "''package main''" "- 1" "()" "[]" None]
    expression_takes_precedence[of testApp testEnv "[''S'']" fileA 22 "[]"
          "''p/a.go''" "''package main''" "- 1" "()" "[]" None]
    expression_takes_precedence[of testApp testEnv "[''S'']" fileA "- 1" "[]"
          "''p/a.go''" "''package main''" "- 1" "()" "[]" None]
  by (simp add: eval_defs oldGodef_def resolveExpr_def resolveImport_def importPath_def)



section \<open>The two tiers\<close>

text \<open>Nothing before the package tier reads the directory.\<close>

lemma found_directory:
  "found (E\<lparr>Open := opn, Readdirnames := rd\<rparr>) w searchpos startPos endPos =
     found E w searchpos startPos endPos"
  by (simp add: found_def)

lemma parseExpr_directory:
  "parseExpr (E\<lparr>Open := opn, Readdirnames := rd\<rparr>) w s ex = parseExpr E w s ex"
  by (simp add: parseExpr_def)

lemma structFields_directory:
  "structFields (E\<lparr>Open := opn, Readdirnames := rd\<rparr>) w s searchpos flds =
     structFields E w s searchpos flds"
  by (induction flds) (simp_all add: found_directory parseExpr_directory split: option.splits)

lemma visit_directory:
  "visit (E\<lparr>Open := opn, Readdirnames := rd\<rparr>) w s searchpos n = visit E w s searchpos n"
  by (cases n) (simp_all add: found_directory structFields_directory)

lemma queryNode_directory:
  "queryNode (E\<lparr>Open := opn, Readdirnames := rd\<rparr>) app w f searchpos =
     queryNode E app w f searchpos"
proof -
  have "visit (E\<lparr>Open := opn, Readdirnames := rd\<rparr>) w (File.Scope f) searchpos =
          visit E w (File.Scope f) searchpos"
    by (rule ext) (rule visit_directory)
  then show ?thesis
    by (simp add: queryNode_def findIdentifier_def parseExpr_directory)
qed

text \<open>
  C1: for a query that addresses an identifier or a selector expression, when the type
  flag is off \<open>oldGodef\<close> first types the expression in the state that holds the
  declarations of the principal file only. If that gives a declaring object, the
  object and its type are returned at once, in the state that this typing left and
  with nothing printed, and the outcome is the same whatever the directory holds: the
  files of the package are not aggregated. The package tier is entered only when the
  local tier gave no object or the type flag is on. In the package tier, once the
  expression is at hand (parsed again when the query was an expression), an object that
  the typing gives is returned, and when it gives none the error is
  \<open>NoDeclarationFound\<close> with the rendering of the expression.
\<close>

theorem local_tier_first:
  assumes "NewScope E w = (pkgScope, w0)"
    and "ParseFile E w0 filename (Some src) False (Some pkgScope) = ((Some f, perr), w1)"
    and "queryNode E app w1 f searchpos = (Inr n, w2)"
    and "n = Ident i \<or> n = SelectorExpr x sel"
  shows
    "(\<not> Application.Type app \<and> ExprType E w2 n = ((Some obj, typ), w3) \<longrightarrow>
        oldGodef E app w filename src searchpos = (Inr (Some obj, typ), w3, []) \<and>
        (\<forall>opn rd. oldGodef (E\<lparr>Open := opn, Readdirnames := rd\<rparr>) app w filename src searchpos =
                    (Inr (Some obj, typ), w3, []))) \<and>
     (\<not> Application.Type app \<and> ExprType E w2 n = ((None, typ), w3) \<longrightarrow>
        oldGodef E app w filename src searchpos = packageTier E app w3 filename f pkgScope n) \<and>
     (Application.Type app \<longrightarrow>
        oldGodef E app w filename src searchpos = packageTier E app w2 filename f pkgScope n) \<and>
     (\<forall>v pkg v1 e' v2 obj' typ' v3.
        parseLocalPackage E v filename f pkgScope = (pkg, v1) \<and>
        (if expr app \<noteq> [] then parseExpr E v1 (File.Scope f) (expr app) else (Inr n, v1))
          = (Inr e', v2) \<longrightarrow>
        (ExprType E v2 e' = ((Some obj', typ'), v3) \<longrightarrow>
           fst (packageTier E app v filename f pkgScope n) = Inr (Some obj', typ')) \<and>
        (ExprType E v2 e' = ((None, typ'), v3) \<longrightarrow>
           fst (packageTier E app v filename f pkgScope n) =
             Inl (NoDeclarationFound (prettyNode E e'))))"
proof -
  have og: "oldGodef E app w filename src searchpos = resolveExpr E app w2 filename f pkgScope n"
    using assms by (rule oldGodef_expr)
  have og': "oldGodef (E\<lparr>Open := opn, Readdirnames := rd\<rparr>) app w filename src searchpos =
      resolveExpr (E\<lparr>Open := opn, Readdirnames := rd\<rparr>) app w2 filename f pkgScope n" for opn rd
    using assms
    by (intro oldGodef_expr[where ?w0.0 = w0 and ?w1.0 = w1 and perr = perr
                              and i = i and x = x and sel = sel])
       (simp_all add: queryNode_directory)
  have a: "oldGodef E app w filename src searchpos = (Inr (Some obj, typ), w3, []) \<and>
        (\<forall>opn rd. oldGodef (E\<lparr>Open := opn, Readdirnames := rd\<rparr>) app w filename src searchpos =
                    (Inr (Some obj, typ), w3, []))"
    if "\<not> Application.Type app \<and> ExprType E w2 n = ((Some obj, typ), w3)"
    using that by (simp add: og og' resolveExpr_def)
  have b: "oldGodef E app w filename src searchpos = packageTier E app w3 filename f pkgScope n"
    if "\<not> Application.Type app \<and> ExprType E w2 n = ((None, typ), w3)"
    using that by (simp add: og resolveExpr_def)
  have c: "oldGodef E app w filename src searchpos = packageTier E app w2 filename f pkgScope n"
    if "Application.Type app"
    using that by (simp add: og resolveExpr_def)
  have d: "(ExprType E v2 e' = ((Some obj', typ'), v3) \<longrightarrow>
           fst (packageTier E app v filename f pkgScope n) = Inr (Some obj', typ')) \<and>
        (ExprType E v2 e' = ((None, typ'), v3) \<longrightarrow>
           fst (packageTier E app v filename f pkgScope n) =
             Inl (NoDeclarationFound (prettyNode E e')))"
    if "parseLocalPackage E v filename f pkgScope = (pkg, v1) \<and>
        (if expr app \<noteq> [] then parseExpr E v1 (File.Scope f) (expr app) else (Inr n, v1))
          = (Inr e', v2)"
    for v pkg v1 e' v2 obj' typ' v3
    using that by (auto simp: packageTier_def Let_def)
  from a b c d show ?thesis
    by blast
qed

theorem local_tier_first_witness:
  "queryNode testEnv testApp [''S''] fileA 31 = (Inr (Ident (MkIdent 32 ''S'')), [''S'']) \<and>
   \<not> Application.Type testApp \<and>
   ExprType testEnv [''S''] (Ident (MkIdent 32 ''S'')) =
     ((Some \<lparr>astObject.Kind = ast_Typ, Name = ''S'', Decl = None, Data = None\<rparr>, ''type''), [''S'']) \<and>
   oldGodef testEnv testApp [] ''p/a.go'' ''package main'' 31 =
     (Inr (Some \<lparr>astObject.Kind = ast_Typ, Name = ''S'', Decl = None, Data = None\<rparr>, ''type''),
      [''S''], []) \<and>
   oldGodef (testEnv\<lparr>Open := (\<lambda>d. False), Readdirnames := (\<lambda>d. None)\<rparr>) testApp []
      ''p/a.go'' ''package main'' 31 =
     (Inr (Some \<lparr>astObject.Kind = ast_Typ, Name = ''S'', Decl = None, Data = None\<rparr>, ''type''),
      [''S''], []) \<and>
   ExprType testEnv [''S''] (Ident (MkIdent 1 ''helper'')) = ((None, []), [''S'']) \<and>
   oldGodef testEnv (testApp\<lparr>expr := ''helper''\<rparr>) [] ''p/a.go'' ''package main'' 31 =
     (Inr (Some \<lparr>astObject.Kind = ast_Typ, Name = ''helper'', Decl = None, Data = None\<rparr>, ''type''),
      [''S'', ''helper''], []) \<and>
   oldGodef testEnv (testApp\<lparr>expr := ''absent''\<rparr>) [] ''p/a.go'' ''package main'' 31 =
     (Inl (NoDeclarationFound ''absent''), [''S'', ''helper''], [])"
  using local_tier_first[of testEnv "[]" "()" "[]" "''p/a.go''" "''package main''" fileA None "[''S'']"
          testApp 31 "Ident (MkIdent 32 ''S'')" "[''S'']" "MkIdent 32 ''S''"
          "Ident (MkIdent 32 ''S'')" "MkIdent 32 ''S''"
          "\<lparr>astObject.Kind = ast_Typ, Name = ''S'', Decl = None, Data = None\<rparr>" "''type''" "[''S'']"]
    local_tier_first[of testEnv "[]" "()" "[]" "''p/a.go''" "''package main''" fileA None "[''S'']"
          "testApp\<lparr>expr := ''helper''\<rparr>" 31 "Ident (MkIdent 1 ''helper'')" "[''S'']" "MkIdent 1 ''helper''"
          "Ident (MkIdent 1 ''helper'')" "MkIdent 1 ''helper''"
          "\<lparr>astObject.Kind = ast_Typ, Name = ''S'', Decl = None, Data = None\<rparr>" "[]" "[''S'']"]
    local_tier_first[of testEnv "[]" "()" "[]" "''p/a.go''" "''package main''" fileA None "[''S'']"
          "testApp\<lparr>expr := ''absent''\<rparr>" 31 "Ident (MkIdent 1 ''absent'')" "[''S'']" "MkIdent 1 ''absent''"
          "Ident (MkIdent 1 ''absent'')" "MkIdent 1 ''absent''"
          "\<lparr>astObject.Kind = ast_Typ, Name = ''S'', Decl = None, Data = None\<rparr>" "[]" "[''S'']"]
  by (simp add: eval_defs eval_package_defs)

section \<open>Import specifiers\<close>

lemma queryNode_flags:
  "queryNode E (app\<lparr>Application.Type := t, Application.Members := m, Application.All := a,
                     JSON := j\<rparr>) w f searchpos = queryNode E app w f searchpos"
  by (simp add: queryNode_def)

text \<open>
  C5: for a query that addresses an import specifier, \<open>oldGodef\<close> fails with
  \<open>InvalidStringLiteral\<close> exactly when the path literal cannot be unquoted. When it can
  and the path is found, the object returned has the kind of a package and the
  directory as its data, with no declaration and the zero type, whatever the type, member
  and JSON flags are; the result assembled from it has the kind \<open>path\<close>, the directory
  as its value, an empty position and no type, and printing it writes the directory
  and a newline and nothing else, under any flags.
\<close>

theorem import_specifier_resolves_to_directory:
  assumes "NewScope E w = (pkgScope, w0)"
    and "ParseFile E w0 filename (Some src) False (Some pkgScope) = ((Some f, perr), w1)"
    and "queryNode E app w1 f searchpos = (Inr (ImportSpec nm path), w2)"
  shows
    "((\<exists>lit. fst (oldGodef E app w filename src searchpos) = Inl (InvalidStringLiteral lit)) \<longleftrightarrow>
        Unquote E (LitValue path) = None) \<and>
     (Unquote E (LitValue path) = None \<longrightarrow>
        oldGodef E app w filename src searchpos =
          (Inl (InvalidStringLiteral (LitValue path)), w2, [])) \<and>
     (Unquote E (LitValue path) = Some p \<and> Import E p (Dir E filename) = Inr dir \<longrightarrow>
        (\<forall>t m a j.
           oldGodef E (app\<lparr>Application.Type := t, Application.Members := m,
                            Application.All := a, JSON := j\<rparr>) w filename src searchpos =
             (Inr (Some \<lparr>astObject.Kind = ast_Pkg, Name = [], Decl = None, Data = Some dir\<rparr>,
                   zeroType E), w2, [])) \<and>
        pathResult \<lparr>astObject.Kind = ast_Pkg, Name = [], Decl = None, Data = Some dir\<rparr> =
          (Object [] PathKind [] \<lparr>Filename = [], Line = 0, Column = 0\<rparr> [] None
                  (Some (StringValue dir)) :: 'a Object) \<and>
        (\<forall>app'. print E app'
                   (pathResult \<lparr>astObject.Kind = ast_Pkg, Name = [], Decl = None, Data = Some dir\<rparr>) =
                 (dir @ [CHR 0x0A], None)))"
proof -
  have og: "oldGodef E (app\<lparr>Application.Type := t, Application.Members := m,
                            Application.All := a, JSON := j\<rparr>) w filename src searchpos =
        (resolveImport E filename path, w2, [])" for t m a j
    using assms by (simp add: oldGodef_parsed[OF assms(1,2)] queryNode_flags)
  have og0: "oldGodef E app w filename src searchpos = (resolveImport E filename path, w2, [])"
    using assms by (simp add: oldGodef_parsed[OF assms(1,2)])
  show ?thesis
    by (auto simp: og og0 resolveImport_def importPath_def pathResult_def print_def Sprint_s_def
             split: option.splits sum.splits)
qed

theorem import_specifier_resolves_to_directory_witness:
  "queryNode testEnv testApp [''S''] fileA 22 = (Inr (ImportSpec None fmtLit), [''S'']) \<and>
   Unquote testEnv (LitValue fmtLit) = Some ''fmt'' \<and>
   Import testEnv ''fmt'' (Dir testEnv ''p/a.go'') = Inr ''/go/src/fmt'' \<and>
   oldGodef testEnv (testApp\<lparr>Application.Type := True, Application.Members := True,
                             Application.All := False, JSON := True\<rparr>)
            [] ''p/a.go'' ''package main'' 22 =
     (Inr (Some \<lparr>astObject.Kind = ast_Pkg, Name = [], Decl = None, Data = Some ''/go/src/fmt''\<rparr>, []),
      [''S''], []) \<and>
   print testEnv (testApp\<lparr>JSON := True\<rparr>)
     (pathResult \<lparr>astObject.Kind = ast_Pkg, Name = [], Decl = None, Data = Some ''/go/src/fmt''\<rparr>) =
     (''/go/src/fmt'' @ [CHR 0x0A], None)"
  using import_specifier_resolves_to_directory[of testEnv "[]" "()" "[]" "''p/a.go''"
          "''package main''" fileA None "[''S'']" testApp 22 None fmtLit "[''S'']" "''fmt''" "''/go/src/fmt''"]
  by (simp add: eval_defs print_def pathResult_def Sprint_s_def)



section \<open>Aggregation\<close>

lemma scanStep_cases:
  "scanStep E d f (pkg, w) pf =
     (if \<not> hasSuffix pf ''.go'' \<or> pf = f then (pkg, w)
      else if fst (pkgName E w (Join E d pf)) \<noteq> Package.Name pkg
      then (pkg, snd (pkgName E w (Join E d pf)))
      else (let r = ParseFile E (snd (pkgName E w (Join E d pf))) (Join E d pf) None False
                      (Some (Package.Scope pkg))
            in if snd (fst r) = None
               then (pkg\<lparr>Files := AList.update (Join E d pf) (fst (fst r)) (Files pkg)\<rparr>, snd r)
               else (pkg, snd r)))"
  by (simp add: scanStep_def Let_def split: prod.splits)

lemma scanStep_name_scope:
  "Package.Name (fst (scanStep E d f st pf)) = Package.Name (fst st)"
  "Package.Scope (fst (scanStep E d f st pf)) = Package.Scope (fst st)"
  by (cases st; simp add: scanStep_cases Let_def)+

lemma scanStep_keys:
  "fst ` set (Files (fst st)) \<subseteq> fst ` set (Files (fst (scanStep E d f st pf)))"
  by (cases st) (auto simp: scanStep_cases Let_def dom_update)

lemma update_first_key:
  "al \<noteq> [] \<Longrightarrow> AList.update k v al \<noteq> [] \<and> fst (hd (AList.update k v al)) = fst (hd al)"
  by (cases al) auto

lemma scanStep_first_key:
  "Files (fst st) \<noteq> [] \<Longrightarrow>
     Files (fst (scanStep E d f st pf)) \<noteq> [] \<and>
     fst (hd (Files (fst (scanStep E d f st pf)))) = fst (hd (Files (fst st)))"
  by (cases st) (simp add: scanStep_cases Let_def update_first_key)

lemma scanSiblings_name_scope:
  "Package.Name (fst (scanSiblings E d f st list)) = Package.Name (fst st)"
  "Package.Scope (fst (scanSiblings E d f st list)) = Package.Scope (fst st)"
  by (induction list arbitrary: st) (simp_all add: scanStep_name_scope)

lemma scanSiblings_keys:
  "fst ` set (Files (fst st)) \<subseteq> fst ` set (Files (fst (scanSiblings E d f st list)))"
proof (induction list arbitrary: st)
  case Nil
  then show ?case by simp
next
  case (Cons pf list)
  have "fst ` set (Files (fst st)) \<subseteq> fst ` set (Files (fst (scanStep E d f st pf)))"
    by (rule scanStep_keys)
  also have "\<dots> \<subseteq> fst ` set (Files (fst (scanSiblings E d f (scanStep E d f st pf) list)))"
    by (rule Cons.IH)
  finally show ?case by simp
qed

lemma scanSiblings_first_key:
  "Files (fst st) \<noteq> [] \<Longrightarrow>
     Files (fst (scanSiblings E d f st list)) \<noteq> [] \<and>
     fst (hd (Files (fst (scanSiblings E d f st list)))) = fst (hd (Files (fst st)))"
proof (induction list arbitrary: st)
  case Nil
  then show ?case by simp
next
  case (Cons pf list)
  from Cons.prems have step: "Files (fst (scanStep E d f st pf)) \<noteq> []"
    "fst (hd (Files (fst (scanStep E d f st pf)))) = fst (hd (Files (fst st)))"
    using scanStep_first_key[of st E d f pf] by simp_all
  from Cons.IH[OF step(1)] step(2) show ?case
    by simp
qed

lemma scanSiblings_append:
  "scanSiblings E d f st (xs @ ys) = scanSiblings E d f (scanSiblings E d f st xs) ys"
  by (induction xs arbitrary: st) simp_all

lemma scanStep_good:
  assumes "hasSuffix pf ''.go''" and "pf \<noteq> f"
    and "fst (pkgName E w (Join E d pf)) = Package.Name pkg"
    and "snd (fst (ParseFile E (snd (pkgName E w (Join E d pf))) (Join E d pf) None False
                     (Some (Package.Scope pkg)))) = None"
  shows "Join E d pf \<in> fst ` set (Files (fst (scanStep E d f (pkg, w) pf)))"
proof -
  let ?r = "ParseFile E (snd (pkgName E w (Join E d pf))) (Join E d pf) None False
              (Some (Package.Scope pkg))"
  have "scanStep E d f (pkg, w) pf =
          (pkg\<lparr>Files := AList.update (Join E d pf) (fst (fst ?r)) (Files pkg)\<rparr>, snd ?r)"
    unfolding scanStep_cases Let_def using assms by simp
  then show ?thesis
    by (simp add: dom_update)
qed

lemma scanSiblings_good:
  assumes "pf \<in> set list" and "hasSuffix pf ''.go''" and "pf \<noteq> f"
    and good: "\<forall>v. fst (pkgName E v (Join E d pf)) = Package.Name pkg \<and>
             snd (fst (ParseFile E (snd (pkgName E v (Join E d pf))) (Join E d pf) None False
                         (Some (Package.Scope pkg)))) = None"
  shows "Join E d pf \<in> fst ` set (Files (fst (scanSiblings E d f (pkg, w) list)))"
proof -
  from assms(1) obtain before rest where l: "list = before @ pf # rest"
    by (auto simp: in_set_conv_decomp)
  obtain pkg1 w1 where b: "scanSiblings E d f (pkg, w) before = (pkg1, w1)"
    by (cases "scanSiblings E d f (pkg, w) before")
  have inv: "Package.Name pkg1 = Package.Name pkg" "Package.Scope pkg1 = Package.Scope pkg"
    using scanSiblings_name_scope[of E d f "(pkg, w)" before] b by simp_all
  have g1: "fst (pkgName E w1 (Join E d pf)) = Package.Name pkg1"
    using good inv(1) by simp
  have g2: "snd (fst (ParseFile E (snd (pkgName E w1 (Join E d pf))) (Join E d pf) None False
                         (Some (Package.Scope pkg1)))) = None"
    using good inv(2) by simp
  have "Join E d pf \<in> fst ` set (Files (fst (scanStep E d f (pkg1, w1) pf)))"
    using assms(2,3) g1 g2 by (rule scanStep_good)
  moreover have "fst ` set (Files (fst (scanStep E d f (pkg1, w1) pf))) \<subseteq>
      fst ` set (Files (fst (scanSiblings E d f (scanStep E d f (pkg1, w1) pf) rest)))"
    by (rule scanSiblings_keys)
  moreover have "scanSiblings E d f (pkg, w) list =
      scanSiblings E d f (scanStep E d f (pkg1, w1) pf) rest"
    by (simp add: l scanSiblings_append b)
  ultimately show ?thesis
    by auto
qed

lemma parseLocalPackage_scanned:
  assumes "Split E filename = (d0, f)" and "d = (if d0 = [] then ''./'' else d0)"
    and "Open E d" and "Readdirnames E d = Some list"
    and scan: "scanSiblings E d f
           (\<lparr>Package.Name = Ident.Name (File.Name src), Scope = pkgScope,
             Files = [(filename, Some src)]\<rparr>, w) list = (pkg', w')"
  shows "parseLocalPackage E w filename src pkgScope =
           (if map fst (Files pkg') = [filename] then (Inl errNoPkgFiles, w') else (Inr pkg', w'))"
proof -
  let ?pkg = "\<lparr>Package.Name = Ident.Name (File.Name src), Scope = pkgScope,
               Files = [(filename, Some src)]\<rparr>"
  have "Files (fst (scanSiblings E d f (?pkg, w) list)) \<noteq> [] \<and>
        fst (hd (Files (fst (scanSiblings E d f (?pkg, w) list)))) = fst (hd (Files (fst (?pkg, w))))"
    by (rule scanSiblings_first_key) simp
  then have ne: "Files pkg' \<noteq> []" and hd: "fst (hd (Files pkg')) = filename"
    by (simp_all add: scan)
  then obtain x xs where xs: "Files pkg' = x # xs" and x: "fst x = filename"
    by (cases "Files pkg'") auto
  have len: "length (Files pkg') = 1 \<longleftrightarrow> map fst (Files pkg') = [filename]"
    by (simp add: xs x)
  have "parseLocalPackage E w filename src pkgScope =
          (if length (Files pkg') = 1 then (Inl errNoPkgFiles, w') else (Inr pkg', w'))"
    unfolding parseLocalPackage_def Let_def using assms(1,3,4) scan
    by (simp add: assms(2)[symmetric])
  then show ?thesis
    by (simp only: len)
qed

text \<open>
  C6: in the loop of \<open>parseLocalPackage\<close>, a sibling \<^verbatim>\<open>.go\<close> file whose package clause names
  another package, and one whose full parse returns an error, leave the package as it
  was, and the loop goes on with the names that follow: a sibling of the package that
  parses is in the files of the package wherever it stands in the directory. No error
  is kept from such a file. After the loop, when the files of the package are the
  principal file alone, the result is the error \<open>errNoPkgFiles\<close>; otherwise it is the
  package.
\<close>

theorem siblings_skipped_without_aborting:
  "(hasSuffix pf ''.go'' \<and> pf \<noteq> f \<and>
    pkgName E w (Join E d pf) = (nm, w1) \<and> nm \<noteq> Package.Name pkg
    \<longrightarrow> scanStep E d f (pkg, w) pf = (pkg, w1)) \<and>
   (hasSuffix pf ''.go'' \<and> pf \<noteq> f \<and>
    pkgName E w (Join E d pf) = (Package.Name pkg, w1) \<and>
    ParseFile E w1 (Join E d pf) None False (Some (Package.Scope pkg)) = ((parsed, Some perr), w2)
    \<longrightarrow> scanStep E d f (pkg, w) pf = (pkg, w2)) \<and>
   scanSiblings E d f (pkg, w) (before @ pf # rest) =
     scanSiblings E d f (scanStep E d f (scanSiblings E d f (pkg, w) before) pf) rest \<and>
   (good \<in> set list \<and> hasSuffix good ''.go'' \<and> good \<noteq> f \<and>
    (\<forall>v. fst (pkgName E v (Join E d good)) = Package.Name pkg \<and>
         snd (fst (ParseFile E (snd (pkgName E v (Join E d good))) (Join E d good) None False
                     (Some (Package.Scope pkg)))) = None)
    \<longrightarrow> Join E d good \<in> fst ` set (Files (fst (scanSiblings E d f (pkg, w) list)))) \<and>
   (Split E filename = (d0, f) \<and> d = (if d0 = [] then ''./'' else d0) \<and>
    Open E d \<and> Readdirnames E d = Some list \<and>
    scanSiblings E d f
      (\<lparr>Package.Name = Ident.Name (File.Name src), Scope = pkgScope,
        Files = [(filename, Some src)]\<rparr>, w) list = (pkg', w')
    \<longrightarrow> (map fst (Files pkg') = [filename] \<longrightarrow>
           parseLocalPackage E w filename src pkgScope = (Inl errNoPkgFiles, w')) \<and>
        (map fst (Files pkg') \<noteq> [filename] \<longrightarrow>
           parseLocalPackage E w filename src pkgScope = (Inr pkg', w')))"
proof (intro conjI impI)
  show "scanStep E d f (pkg, w) pf = (pkg, w1)"
    if "hasSuffix pf ''.go'' \<and> pf \<noteq> f \<and>
        pkgName E w (Join E d pf) = (nm, w1) \<and> nm \<noteq> Package.Name pkg"
    using that by (simp add: scanStep_cases)
  show "scanStep E d f (pkg, w) pf = (pkg, w2)"
    if "hasSuffix pf ''.go'' \<and> pf \<noteq> f \<and>
        pkgName E w (Join E d pf) = (Package.Name pkg, w1) \<and>
        ParseFile E w1 (Join E d pf) None False (Some (Package.Scope pkg)) = ((parsed, Some perr), w2)"
    using that by (simp add: scanStep_cases)
  show "scanSiblings E d f (pkg, w) (before @ pf # rest) =
     scanSiblings E d f (scanStep E d f (scanSiblings E d f (pkg, w) before) pf) rest"
    by (simp add: scanSiblings_append)
  show "Join E d good \<in> fst ` set (Files (fst (scanSiblings E d f (pkg, w) list)))"
    if "good \<in> set list \<and> hasSuffix good ''.go'' \<and> good \<noteq> f \<and>
      (\<forall>v. fst (pkgName E v (Join E d good)) = Package.Name pkg \<and>
         snd (fst (ParseFile E (snd (pkgName E v (Join E d good))) (Join E d good) None False
                     (Some (Package.Scope pkg)))) = None)"
    using that by (intro scanSiblings_good) blast+
next
  assume h: "Split E filename = (d0, f) \<and> d = (if d0 = [] then ''./'' else d0) \<and>
    Open E d \<and> Readdirnames E d = Some list \<and>
    scanSiblings E d f
      (\<lparr>Package.Name = Ident.Name (File.Name src), Scope = pkgScope,
        Files = [(filename, Some src)]\<rparr>, w) list = (pkg', w')"
  then have p: "parseLocalPackage E w filename src pkgScope =
           (if map fst (Files pkg') = [filename] then (Inl errNoPkgFiles, w') else (Inr pkg', w'))"
    by (intro parseLocalPackage_scanned[where ?d0.0 = d0 and f = f and d = d and list = list]) blast+
  show "parseLocalPackage E w filename src pkgScope = (Inl errNoPkgFiles, w')"
    if "map fst (Files pkg') = [filename]"
    using p that by simp
  show "parseLocalPackage E w filename src pkgScope = (Inr pkg', w')"
    if "map fst (Files pkg') \<noteq> [filename]"
    using p that by simp
qed

theorem siblings_skipped_without_aborting_witness:
  "scanStep testEnv ''p/'' ''a.go'' (\<lparr>Package.Name = ''main'', Scope = (), Files = [(''p/a.go'', Some fileA)]\<rparr>, []) ''c.go'' = (\<lparr>Package.Name = ''main'', Scope = (), Files = [(''p/a.go'', Some fileA)]\<rparr>, []) \<and>
   scanStep testEnv ''p/'' ''a.go'' (\<lparr>Package.Name = ''main'', Scope = (), Files = [(''p/a.go'', Some fileA)]\<rparr>, []) ''d.go'' = (\<lparr>Package.Name = ''main'', Scope = (), Files = [(''p/a.go'', Some fileA)]\<rparr>, []) \<and>
   ''p/b.go'' \<in> fst ` set (Files (fst (scanSiblings testEnv ''p/'' ''a.go'' (\<lparr>Package.Name = ''main'', Scope = (), Files = [(''p/a.go'', Some fileA)]\<rparr>, []) [''README'', ''a.go'', ''d.go'', ''c.go'', ''b.go'']))) \<and>
   parseLocalPackage testEnv [] ''p/a.go'' fileA () =
     (Inr \<lparr>Package.Name = ''main'', Scope = (),
           Files = [(''p/a.go'', Some fileA), (''p/b.go'', Some fileB)]\<rparr>, [''helper'']) \<and>
   parseLocalPackage (testEnv\<lparr>Readdirnames := (\<lambda>d. Some [''a.go'', ''d.go'', ''c.go''])\<rparr>) []
      ''p/a.go'' fileA () = (Inl errNoPkgFiles, [])"
  using
    siblings_skipped_without_aborting[where E = testEnv and d = "''p/''" and f = "''a.go''"
      and pkg = "\<lparr>Package.Name = ''main'', Scope = (), Files = [(''p/a.go'', Some fileA)]\<rparr>" and w = "[]" and pf = "''c.go''" and nm = "''other''" and ?w1.0 = "[]"
      and before = "[]" and rest = "[]" and list = "[''README'', ''a.go'', ''d.go'', ''c.go'', ''b.go'']" and good = "''b.go''"
      and filename = "''p/a.go''" and ?d0.0 = "''p/''" and src = fileA and pkgScope = "()"
      and pkg' = "\<lparr>Package.Name = ''main'', Scope = (),
           Files = [(''p/a.go'', Some fileA), (''p/b.go'', Some fileB)]\<rparr>" and w' = "[''helper'']"]
    siblings_skipped_without_aborting[where E = testEnv and d = "''p/''" and f = "''a.go''"
      and pkg = "\<lparr>Package.Name = ''main'', Scope = (), Files = [(''p/a.go'', Some fileA)]\<rparr>" and w = "[]" and pf = "''d.go''" and ?w1.0 = "[]"
      and parsed = None and perr = "''p/d.go:2:1: expected declaration''" and ?w2.0 = "[]"
      and before = "[]" and rest = "[]" and list = "[]" and good = "''b.go''"]
    siblings_skipped_without_aborting[where
      E = "testEnv\<lparr>Readdirnames := (\<lambda>d. Some [''a.go'', ''d.go'', ''c.go''])\<rparr>"
      and d = "''p/''" and f = "''a.go''"
      and pkg = "\<lparr>Package.Name = ''main'', Scope = (), Files = [(''p/a.go'', Some fileA)]\<rparr>" and w = "[]" and pf = "''d.go''"
      and before = "[]" and rest = "[]" and list = "[''a.go'', ''d.go'', ''c.go'']" and good = "''b.go''"
      and filename = "''p/a.go''" and ?d0.0 = "''p/''" and src = fileA and pkgScope = "()"
      and pkg' = "\<lparr>Package.Name = ''main'', Scope = (), Files = [(''p/a.go'', Some fileA)]\<rparr>" and w' = "[]"]
  by (simp add: eval_defs eval_package_defs)



section \<open>Structured output\<close>

lemma digit_not_newline: "k < 10 \<Longrightarrow> ''0123456789'' ! k \<noteq> CHR 0x0A"
proof
  assume k: "k < 10" and eq: "''0123456789'' ! k = CHR 0x0A"
  from k have "''0123456789'' ! k \<in> set ''0123456789''"
    by (intro nth_mem) simp
  with eq show False
    by simp
qed

lemma digits_no_newline: "CHR 0x0A \<notin> set (digits n)"
proof (induction n rule: digits.induct)
  case (1 n)
  show ?case
  proof (cases "n < 10")
    case True
    then show ?thesis
      using digit_not_newline[of n] by (subst digits.simps) simp
  next
    case False
    have "n mod 10 < 10"
      by simp
    then have "''0123456789'' ! (n mod 10) \<noteq> CHR 0x0A"
      by (rule digit_not_newline)
    with False "1.IH" show ?thesis
      by (subst digits.simps) simp
  qed
qed

lemma itoa_no_newline: "CHR 0x0A \<notin> set (itoa i)"
  by (simp add: itoa_def digits_no_newline)

lemma joinComma_no_newline:
  "(\<forall>x\<in>set xs. CHR 0x0A \<notin> set x) \<Longrightarrow> CHR 0x0A \<notin> set (joinComma xs)"
  by (induction xs rule: joinComma.induct) auto

lemma Marshal_no_newline:
  assumes "\<forall>x. CHR 0x0A \<notin> set (jsonString E x)" and "Marshal E pos = Inr js"
  shows "CHR 0x0A \<notin> set js"
proof -
  let ?fs = "(if Position.Filename pos \<noteq> []
              then [jsonField ''filename'' (jsonString E (Position.Filename pos))] else []) @
             (if Line pos \<noteq> 0 then [jsonField ''line'' (itoa (Line pos))] else []) @
             (if Column pos \<noteq> 0 then [jsonField ''column'' (itoa (Column pos))] else [])"
  have "\<forall>x\<in>set ?fs. CHR 0x0A \<notin> set x"
    using assms(1) by (auto simp: jsonField_def itoa_no_newline)
  then have "CHR 0x0A \<notin> set (joinComma ?fs)"
    by (rule joinComma_no_newline)
  moreover have "js = ''{'' @ joinComma ?fs @ ''}''"
    using assms(2) by (simp add: Marshal_def)
  ultimately show ?thesis
    by simp
qed

text \<open>
  C8: for a result whose kind is not \<open>path\<close>, printed with the JSON flag on, the output is
  the serialization of the position followed by one newline, and nothing else: an object
  with the keys \<^verbatim>\<open>filename\<close>, \<^verbatim>\<open>line\<close> and \<^verbatim>\<open>column\<close> in this order, each left out when
  its value is empty or zero. The type and member flags do not change the output. The
  output is one line, provided the encoding of a string contains no newline (JSON
  escapes it).
\<close>

theorem json_output_is_position_only:
  "Object.Kind obj \<noteq> PathKind \<and> JSON app \<longrightarrow>
     print E app obj =
       (''{'' @ joinComma
          ((if Position.Filename (Position obj) \<noteq> []
            then [jsonField ''filename'' (jsonString E (Position.Filename (Position obj)))]
            else []) @
           (if Line (Position obj) \<noteq> 0
            then [jsonField ''line'' (itoa (Line (Position obj)))] else []) @
           (if Column (Position obj) \<noteq> 0
            then [jsonField ''column'' (itoa (Column (Position obj)))] else []))
        @ ''}'' @ [CHR 0x0A], None) \<and>
     (\<forall>t m a. print E (app\<lparr>Application.Type := t, Application.Members := m,
                           Application.All := a\<rparr>) obj = print E app obj) \<and>
     ((\<forall>x. CHR 0x0A \<notin> set (jsonString E x)) \<longrightarrow>
        (\<exists>line. fst (print E app obj) = line @ [CHR 0x0A] \<and> CHR 0x0A \<notin> set line))"
proof (intro impI conjI allI)
  assume h: "Object.Kind obj \<noteq> PathKind \<and> JSON app"
  obtain js where js: "Marshal E (Position obj) = Inr js"
    by (simp add: Marshal_def)
  have p: "print E app obj = (js @ [CHR 0x0A], None)"
    using h js by (simp add: print_def)
  show "print E app obj =
       (''{'' @ joinComma
          ((if Position.Filename (Position obj) \<noteq> []
            then [jsonField ''filename'' (jsonString E (Position.Filename (Position obj)))]
            else []) @
           (if Line (Position obj) \<noteq> 0
            then [jsonField ''line'' (itoa (Line (Position obj)))] else []) @
           (if Column (Position obj) \<noteq> 0
            then [jsonField ''column'' (itoa (Column (Position obj)))] else []))
        @ ''}'' @ [CHR 0x0A], None)"
    using p js by (simp add: Marshal_def)
  show "print E (app\<lparr>Application.Type := t, Application.Members := m,
                           Application.All := a\<rparr>) obj = print E app obj" for t m a
    using h by (simp add: print_def)
  show "\<exists>line. fst (print E app obj) = line @ [CHR 0x0A] \<and> CHR 0x0A \<notin> set line"
    if "\<forall>x. CHR 0x0A \<notin> set (jsonString E x)"
    using Marshal_no_newline[OF that js] p by simp
qed

lemma testJsonString_no_newline: "CHR 0x0A \<notin> set (testJsonString x)"
  by (auto simp: testJsonString_def split: if_splits)

theorem json_output_is_position_only_witness:
  "Object.Kind typeS \<noteq> PathKind \<and>
   JSON (testApp\<lparr>JSON := True\<rparr>) \<and>
   (\<forall>x. CHR 0x0A \<notin> set (jsonString testEnv x)) \<and>
   print testEnv (testApp\<lparr>JSON := True\<rparr>) typeS =
     (''{'' @ [CHR 0x22] @ ''filename'' @ [CHR 0x22] @ '':'' @ [CHR 0x22] @ ''p/a.go'' @ [CHR 0x22] @
      '','' @ [CHR 0x22] @ ''line'' @ [CHR 0x22] @ '':3}'' @ [CHR 0x0A], None) \<and>
   print testEnv (testApp\<lparr>JSON := True\<rparr>\<lparr>Application.Type := True, Application.Members := True,
                                         Application.All := True\<rparr>) typeS =
     print testEnv (testApp\<lparr>JSON := True\<rparr>) typeS"
proof -
  have k: "Object.Kind typeS \<noteq> PathKind"
    by (simp add: typeS_def TypeKind_def PathKind_def)
  have j: "JSON (testApp\<lparr>JSON := True\<rparr>)"
    by simp
  have nl: "\<forall>x. CHR 0x0A \<notin> set (jsonString testEnv x)"
    by (simp add: testEnv_def testJsonString_no_newline)
  note inst = json_output_is_position_only[of typeS "testApp\<lparr>JSON := True\<rparr>" testEnv]
  from inst k j have out: "print testEnv (testApp\<lparr>JSON := True\<rparr>) typeS =
       (''{'' @ joinComma
          ((if Position.Filename (Position typeS) \<noteq> []
            then [jsonField ''filename'' (jsonString testEnv (Position.Filename (Position typeS)))]
            else []) @
           (if Line (Position typeS) \<noteq> 0
            then [jsonField ''line'' (itoa (Line (Position typeS)))] else []) @
           (if Column (Position typeS) \<noteq> 0
            then [jsonField ''column'' (itoa (Column (Position typeS)))] else []))
        @ ''}'' @ [CHR 0x0A], None)"
    by blast
  from inst k j have flags: "print testEnv (testApp\<lparr>JSON := True\<rparr>\<lparr>Application.Type := True,
         Application.Members := True, Application.All := True\<rparr>) typeS =
       print testEnv (testApp\<lparr>JSON := True\<rparr>) typeS"
    by blast
  have "print testEnv (testApp\<lparr>JSON := True\<rparr>) typeS =
     (''{'' @ [CHR 0x22] @ ''filename'' @ [CHR 0x22] @ '':'' @ [CHR 0x22] @ ''p/a.go'' @ [CHR 0x22] @
      '','' @ [CHR 0x22] @ ''line'' @ [CHR 0x22] @ '':3}'' @ [CHR 0x0A], None)"
    unfolding out
    by (simp add: typeS_def testEnv_def testJsonString_def jsonField_def itoa_def digits.simps)
  with k j nl flags show ?thesis
    by blast
qed


end
